theory Spec2Isabelle
  imports Main
begin

section \<open>Python exceptions and JSON values\<close>

text \<open>
  The servers are Python. An exception is a value: its class and the text \<open>str(e)\<close>
  gives. \<open>exc_bases\<close> lists a class with its ancestors, so that an
  \<^verbatim>\<open>except C\<close> clause is a membership test. Message texts of the interpreter's own
  exceptions follow CPython 3.11; the theorems below refer to them through \<open>exc_msg\<close>.
\<close>

datatype exc_class =
    BaseException | KeyboardInterrupt | SystemExit | Exception
  | ArithmeticError | ZeroDivisionError | OverflowError
  | SyntaxError | TypeError | AttributeError
  | ValueError | JSONDecodeError | UnicodeError | UnicodeDecodeError
  | LookupError | KeyError | MemoryError | RuntimeError | RecursionError
  | OSError | FileNotFoundError | FileExistsError | IsADirectoryError | NotADirectoryError

fun exc_bases :: "exc_class \<Rightarrow> exc_class list" where
  "exc_bases BaseException = [BaseException]"
| "exc_bases KeyboardInterrupt = [KeyboardInterrupt, BaseException]"
| "exc_bases SystemExit = [SystemExit, BaseException]"
| "exc_bases Exception = [Exception, BaseException]"
| "exc_bases ArithmeticError = [ArithmeticError, Exception, BaseException]"
| "exc_bases ZeroDivisionError = [ZeroDivisionError, ArithmeticError, Exception, BaseException]"
| "exc_bases OverflowError = [OverflowError, ArithmeticError, Exception, BaseException]"
| "exc_bases SyntaxError = [SyntaxError, Exception, BaseException]"
| "exc_bases TypeError = [TypeError, Exception, BaseException]"
| "exc_bases AttributeError = [AttributeError, Exception, BaseException]"
| "exc_bases ValueError = [ValueError, Exception, BaseException]"
| "exc_bases JSONDecodeError = [JSONDecodeError, ValueError, Exception, BaseException]"
| "exc_bases UnicodeError = [UnicodeError, ValueError, Exception, BaseException]"
| "exc_bases UnicodeDecodeError =
     [UnicodeDecodeError, UnicodeError, ValueError, Exception, BaseException]"
| "exc_bases LookupError = [LookupError, Exception, BaseException]"
| "exc_bases KeyError = [KeyError, LookupError, Exception, BaseException]"
| "exc_bases MemoryError = [MemoryError, Exception, BaseException]"
| "exc_bases RuntimeError = [RuntimeError, Exception, BaseException]"
| "exc_bases RecursionError = [RecursionError, RuntimeError, Exception, BaseException]"
| "exc_bases OSError = [OSError, Exception, BaseException]"
| "exc_bases FileNotFoundError = [FileNotFoundError, OSError, Exception, BaseException]"
| "exc_bases FileExistsError = [FileExistsError, OSError, Exception, BaseException]"
| "exc_bases IsADirectoryError = [IsADirectoryError, OSError, Exception, BaseException]"
| "exc_bases NotADirectoryError = [NotADirectoryError, OSError, Exception, BaseException]"

datatype py_exc = PyExc (exc_cls: exc_class) (exc_msg: string)

definition caught_by :: "py_exc \<Rightarrow> exc_class list \<Rightarrow> bool" where
  \<comment> \<open>\<^verbatim>\<open>except (C1, C2, ...)\<close> handles \<open>e\<close>\<close>
  "caught_by e classes = list_ex (\<lambda>c. c \<in> set (exc_bases (exc_cls e))) classes"

text \<open>
  What \<^verbatim>\<open>json.load\<close> returns: \<^verbatim>\<open>None\<close>, a bool, an int, a float (kept as its
  \<open>repr\<close> text), a str, a list or a dict with str keys. A dict is an association list in
  insertion order, as Python dicts are ordered. A Python \<open>str\<close> is a \<open>string\<close> with one
  \<open>char\<close> per code point.
\<close>

datatype json =
    JNull | JBool bool | JInt int | JFloat string | JStr string
  | JList "json list" | JDict "(string \<times> json) list"

fun type_name :: "json \<Rightarrow> string" where
  "type_name JNull = ''NoneType''"
| "type_name (JBool _) = ''bool''"
| "type_name (JInt _) = ''int''"
| "type_name (JFloat _) = ''float''"
| "type_name (JStr _) = ''str''"
| "type_name (JList _) = ''list''"
| "type_name (JDict _) = ''dict''"

fun dict_set :: "string \<Rightarrow> 'v \<Rightarrow> (string \<times> 'v) list \<Rightarrow> (string \<times> 'v) list" where
  \<comment> \<open>\<^verbatim>\<open>d[k] = v\<close>: an existing key keeps its place, a new key goes last\<close>
  "dict_set k v [] = [(k, v)]"
| "dict_set k v ((k', v') # d) = (if k' = k then (k, v) # d else (k', v') # dict_set k v d)"

fun py_setitem :: "json \<Rightarrow> string \<Rightarrow> json \<Rightarrow> py_exc + json" where
  \<comment> \<open>\<^verbatim>\<open>obj[key] = value\<close> with a str key\<close>
  "py_setitem (JDict d) k v = Inr (JDict (dict_set k v d))"
| "py_setitem (JList _) k v =
     Inl (PyExc TypeError ''list indices must be integers or slices, not str'')"
| "py_setitem obj k v =
     Inl (PyExc TypeError
       ([CHR 0x27] @ type_name obj @ [CHR 0x27] @ '' object does not support item assignment''))"

section \<open>The paper store on disk\<close>

text \<open>
  The directory \<^verbatim>\<open>papers\<close> is absent or holds entries, in the order \<^verbatim>\<open>os.listdir\<close>
  gives them. An entry is a directory or something else; a topic directory's
  \<^verbatim>\<open>papers_info.json\<close> is absent, a directory, or a file. A file's text is kept up to
  what \<^verbatim>\<open>json.load\<close> makes of it: the value it returns, or the exception it raises.
  That is a \<^verbatim>\<open>JSONDecodeError\<close> for a syntax error, a \<^verbatim>\<open>UnicodeDecodeError\<close> for
  bytes that are not text, and on well-formed JSON text a \<^verbatim>\<open>ValueError\<close> for an integer
  literal of more than 4300 digits or a \<^verbatim>\<open>RecursionError\<close> for nesting deeper than the
  interpreter allows. The model covers topic names that are one path component
  (\<open>plain_name\<close>); \<^verbatim>\<open>papers\<close> itself is never a regular file. A path component of
  more than \<open>NAME_MAX\<close> bytes makes every system call on the path fail with
  \<^verbatim>\<open>ENAMETOOLONG\<close>; the limit is that of the usual Linux file systems. Permissions and
  free space are not modelled: a directory that may be created is created, and writing
  a value that was loaded or built from the collaborator's strings succeeds.
\<close>

datatype content = Json json | Unloadable py_exc

datatype info_node = NoInfo | InfoDir | InfoFile content

datatype entry = PlainFile | TopicDir info_node

datatype store = NoRoot | Root "(string \<times> entry) list"

definition PAPER_DIR :: string where
  "PAPER_DIR = ''papers''"

definition plain_name :: "string \<Rightarrow> bool" where
  "plain_name s = (s \<noteq> [] \<and> s \<noteq> ''.'' \<and> s \<noteq> ''..''
     \<and> CHR ''/'' \<notin> set s \<and> CHR 0x00 \<notin> set s)"

definition info_path :: "string \<Rightarrow> string" where
  \<comment> \<open>\<^verbatim>\<open>os.path.join(os.path.join(PAPER_DIR, name), "papers_info.json")\<close>\<close>
  "info_path name = PAPER_DIR @ ''/'' @ name @ ''/papers_info.json''"

definition quoted :: "string \<Rightarrow> string" where
  \<comment> \<open>\<open>repr\<close> of a path without quotes, backslashes or control characters\<close>
  "quoted s = [CHR 0x27] @ s @ [CHR 0x27]"

definition NAME_MAX :: nat where
  "NAME_MAX = 255"

definition encoded_length :: "string \<Rightarrow> nat" where
  \<comment> \<open>the bytes of \<^verbatim>\<open>os.fsencode(s)\<close> (UTF-8) for code points below 256\<close>
  "encoded_length s = sum_list (map (\<lambda>c. if (of_char c :: nat) < 128 then 1 else 2) s)"

definition name_too_long :: "string \<Rightarrow> bool" where
  "name_too_long name = (NAME_MAX < encoded_length name)"

definition too_long_error :: "string \<Rightarrow> py_exc" where
  "too_long_error path = PyExc OSError (''[Errno 36] File name too long: '' @ quoted path)"

definition lookup_entry :: "store \<Rightarrow> string \<Rightarrow> entry option" where
  "lookup_entry st name = (case st of NoRoot \<Rightarrow> None | Root es \<Rightarrow> map_of es name)"

definition makedirs_root :: "store \<Rightarrow> store" where
  \<comment> \<open>\<^verbatim>\<open>os.makedirs(PAPER_DIR, exist_ok=True)\<close>\<close>
  "makedirs_root st = (case st of NoRoot \<Rightarrow> Root [] | Root es \<Rightarrow> Root es)"

definition makedirs_topic :: "store \<Rightarrow> string \<Rightarrow> py_exc + store" where
  \<comment> \<open>\<^verbatim>\<open>os.makedirs(topic_path, exist_ok=True)\<close>; a new directory is listed last\<close>
  "makedirs_topic st name =
     (if name_too_long name then Inl (too_long_error (PAPER_DIR @ ''/'' @ name))
      else
        (case st of
           NoRoot \<Rightarrow> Inr (Root [(name, TopicDir NoInfo)])
         | Root es \<Rightarrow>
             (case map_of es name of
                None \<Rightarrow> Inr (Root (es @ [(name, TopicDir NoInfo)]))
              | Some PlainFile \<Rightarrow>
                  Inl (PyExc FileExistsError
                    (''[Errno 17] File exists: '' @ quoted (PAPER_DIR @ ''/'' @ name)))
              | Some (TopicDir _) \<Rightarrow> Inr st)))"

definition open_read :: "store \<Rightarrow> string \<Rightarrow> py_exc + content" where
  \<comment> \<open>\<^verbatim>\<open>open(file_path, "r")\<close> and reading it\<close>
  "open_read st name =
     (if name_too_long name then Inl (too_long_error (info_path name))
      else
        (case lookup_entry st name of
           None \<Rightarrow> Inl (PyExc FileNotFoundError
             (''[Errno 2] No such file or directory: '' @ quoted (info_path name)))
         | Some PlainFile \<Rightarrow> Inl (PyExc NotADirectoryError
             (''[Errno 20] Not a directory: '' @ quoted (info_path name)))
         | Some (TopicDir NoInfo) \<Rightarrow> Inl (PyExc FileNotFoundError
             (''[Errno 2] No such file or directory: '' @ quoted (info_path name)))
         | Some (TopicDir InfoDir) \<Rightarrow> Inl (PyExc IsADirectoryError
             (''[Errno 21] Is a directory: '' @ quoted (info_path name)))
         | Some (TopicDir (InfoFile c)) \<Rightarrow> Inr c))"

fun json_load :: "content \<Rightarrow> py_exc + json" where
  "json_load (Json v) = Inr v"
| "json_load (Unloadable e) = Inl e"

definition write_info :: "store \<Rightarrow> string \<Rightarrow> json \<Rightarrow> py_exc + store" where
  \<comment> \<open>\<^verbatim>\<open>open(file_path, "w")\<close> and \<^verbatim>\<open>json.dump(v, f, indent=2)\<close>\<close>
  "write_info st name v =
     (if name_too_long name then Inl (too_long_error (info_path name))
      else
        (case st of
           NoRoot \<Rightarrow> Inl (PyExc FileNotFoundError
             (''[Errno 2] No such file or directory: '' @ quoted (info_path name)))
         | Root es \<Rightarrow>
             (case map_of es name of
                None \<Rightarrow> Inl (PyExc FileNotFoundError
                  (''[Errno 2] No such file or directory: '' @ quoted (info_path name)))
              | Some PlainFile \<Rightarrow> Inl (PyExc NotADirectoryError
                  (''[Errno 20] Not a directory: '' @ quoted (info_path name)))
              | Some (TopicDir InfoDir) \<Rightarrow> Inl (PyExc IsADirectoryError
                  (''[Errno 21] Is a directory: '' @ quoted (info_path name)))
              | Some (TopicDir _) \<Rightarrow>
                  Inr (Root (dict_set name (TopicDir (InfoFile (Json v))) es)))))"


section \<open>Strings\<close>

text \<open>
  \<^verbatim>\<open>str.lower\<close>, \<^verbatim>\<open>str.replace\<close> with one-character arguments and
  \<^verbatim>\<open>str.title\<close>. Case mapping is the ASCII one: other code points are left as they
  are, and the theorems about case are stated for ASCII text.
\<close>

definition is_upper :: "char \<Rightarrow> bool" where
  "is_upper c = (65 \<le> (of_char c :: nat) \<and> (of_char c :: nat) \<le> 90)"

definition is_lower :: "char \<Rightarrow> bool" where
  "is_lower c = (97 \<le> (of_char c :: nat) \<and> (of_char c :: nat) \<le> 122)"

definition lower_char :: "char \<Rightarrow> char" where
  "lower_char c = (if is_upper c then char_of (of_char c + 32 :: nat) else c)"

definition upper_char :: "char \<Rightarrow> char" where
  "upper_char c = (if is_lower c then char_of (of_char c - 32 :: nat) else c)"

definition py_lower :: "string \<Rightarrow> string" where
  "py_lower s = map lower_char s"

definition py_replace :: "char \<Rightarrow> char \<Rightarrow> string \<Rightarrow> string" where
  \<comment> \<open>\<^verbatim>\<open>s.replace(a, b)\<close> for one-character \<open>a\<close> and \<open>b\<close>\<close>
  "py_replace a b s = map (\<lambda>c. if c = a then b else c) s"

fun title_from :: "bool \<Rightarrow> string \<Rightarrow> string" where
  \<comment> \<open>the loop of \<^verbatim>\<open>str.title\<close>; the flag is \<open>previous_is_cased\<close>\<close>
  "title_from previous_is_cased [] = []"
| "title_from previous_is_cased (c # cs) =
     (if previous_is_cased then lower_char c else upper_char c)
       # title_from (is_upper c \<or> is_lower c) cs"

definition py_title :: "string \<Rightarrow> string" where
  "py_title s = title_from False s"

fun title_cased :: "bool \<Rightarrow> string \<Rightarrow> bool" where
  \<comment> \<open>ASCII text in title case, as \<^verbatim>\<open>str.istitle\<close> reads it (an upper-case letter only
      after an uncased character, a lower-case one only after a cased one), with no
      underscore and no hyphen; the flag is \<open>previous_is_cased\<close>\<close>
  "title_cased previous_is_cased [] = True"
| "title_cased previous_is_cased (c # cs) =
     (if is_upper c then \<not> previous_is_cased \<and> title_cased True cs
      else if is_lower c then previous_is_cased \<and> title_cased True cs
      else (of_char c :: nat) < 128 \<and> c \<noteq> CHR ''_'' \<and> c \<noteq> CHR ''-''
        \<and> title_cased False cs)"

section \<open>Search ingestion\<close>

text \<open>
  What the arXiv client yields for one paper, as far as \<^verbatim>\<open>search_papers\<close> reads it:
  \<open>short_id\<close> is \<^verbatim>\<open>get_short_id()\<close>, \<open>authors\<close> the authors' names, \<open>pdf_url\<close> is
  \<open>None\<close> when the feed has no PDF link, and \<open>published\<close> is \<open>None\<close> when the date is
  missing and otherwise \<^verbatim>\<open>str(paper.published.date())\<close>.
\<close>

record arxiv_result =
  short_id :: string
  title :: string
  authors :: "string list"
  summary :: string
  pdf_url :: "string option"
  published :: "string option"

definition paper_info_entry :: "arxiv_result \<Rightarrow> json" where
  "paper_info_entry paper = JDict
     [(''title'', JStr (title paper)),
      (''authors'', JList (map JStr (authors paper))),
      (''summary'', JStr (summary paper)),
      (''pdf_url'', (case pdf_url paper of None \<Rightarrow> JNull | Some u \<Rightarrow> JStr u)),
      (''published'', JStr (case published paper of Some d \<Rightarrow> d | None \<Rightarrow> ''N/A''))]"

definition topic_slug :: "string \<Rightarrow> string" where
  \<comment> \<open>\<^verbatim>\<open>topic.lower().replace(" ", "_")\<close>\<close>
  "topic_slug topic = py_replace (CHR '' '') (CHR ''_'') (py_lower topic)"

definition load_existing :: "store \<Rightarrow> string \<Rightarrow> py_exc + json" where
  \<comment> \<open>the \<^verbatim>\<open>try\<close> block of \<^verbatim>\<open>search_papers\<close> that reads the file\<close>
  "load_existing st name =
     (case (case open_read st name of Inl e \<Rightarrow> Inl e | Inr c \<Rightarrow> json_load c) of
        Inr papers_info \<Rightarrow> Inr papers_info
      | Inl e \<Rightarrow>
          if caught_by e [FileNotFoundError, JSONDecodeError] then Inr (JDict []) else Inl e)"

fun store_papers ::
  "arxiv_result list \<Rightarrow> string list \<Rightarrow> json \<Rightarrow> py_exc + (string list \<times> json)" where
  \<comment> \<open>the \<^verbatim>\<open>for paper in papers_iterator\<close> loop\<close>
  "store_papers [] processed_paper_ids papers_info = Inr (processed_paper_ids, papers_info)"
| "store_papers (paper # rest) processed_paper_ids papers_info =
     (case py_setitem papers_info (short_id paper) (paper_info_entry paper) of
        Inl e \<Rightarrow> Inl e
      | Inr papers_info' \<Rightarrow>
          store_papers rest (processed_paper_ids @ [short_id paper]) papers_info')"

definition search_papers ::
  "(string \<Rightarrow> int \<Rightarrow> arxiv_result list) \<Rightarrow> store \<Rightarrow> string \<Rightarrow> int
     \<Rightarrow> (py_exc + string list) \<times> store" where
  \<comment> \<open>returns the ids, or the exception raised, and the store as the call leaves it;
      \<open>client\<close> is the arXiv collaborator: the results for a query and a result cap\<close>
  "search_papers client st topic max_results =
     (let st1 = makedirs_root st;
          papers_iterator = client topic max_results;
          slug = topic_slug topic
      in case makedirs_topic st1 slug of
           Inl e \<Rightarrow> (Inl e, st1)
         | Inr st2 \<Rightarrow>
             (case load_existing st2 slug of
                Inl e \<Rightarrow> (Inl e, st2)
              | Inr papers_info \<Rightarrow>
                  (case store_papers papers_iterator [] papers_info of
                     Inl e \<Rightarrow> (Inl e, st2)
                   | Inr (processed_paper_ids, merged) \<Rightarrow>
                       (case write_info st2 slug merged of
                          Inl e \<Rightarrow> (Inl e, st2)
                        | Inr st3 \<Rightarrow> (Inr processed_paper_ids, st3)))))"

section \<open>Python built-ins on JSON values\<close>

text \<open>
  \<open>str\<close> and \<open>repr\<close> of the values \<^verbatim>\<open>json.load\<close> returns, as an f-string formats
  them, and the operations the listing and the lookup apply to them. Each raises what
  Python raises on a value of the wrong type.
\<close>

fun show_nat :: "nat \<Rightarrow> string" where
  "show_nat n =
     (if n < 10 then [char_of (48 + n)] else show_nat (n div 10) @ [char_of (48 + n mod 10)])"

declare show_nat.simps [simp del]

definition show_int :: "int \<Rightarrow> string" where
  "show_int i = (if i < 0 then ''-'' @ show_nat (nat (- i)) else show_nat (nat i))"

definition hex_digit :: "nat \<Rightarrow> char" where
  "hex_digit d = (if d < 10 then char_of (48 + d) else char_of (87 + d))"

definition escape_char :: "char \<Rightarrow> char \<Rightarrow> string" where
  \<comment> \<open>one character of \<open>repr\<close> of a str: the quote and the backslash escaped, control
      and non-printable code points below 256 as \<^verbatim>\<open>\t \n \r \xhh\<close>\<close>
  "escape_char quote c =
     (let n = (of_char c :: nat) in
      if c = quote \<or> c = CHR 0x5C then [CHR 0x5C, c]
      else if n = 9 then [CHR 0x5C, CHR ''t'']
      else if n = 10 then [CHR 0x5C, CHR ''n'']
      else if n = 13 then [CHR 0x5C, CHR ''r'']
      else if n < 32 \<or> n = 127 \<or> (128 \<le> n \<and> n \<le> 160) \<or> n = 173
        then [CHR 0x5C, CHR ''x'', hex_digit (n div 16), hex_digit (n mod 16)]
      else [c])"

definition repr_str :: "string \<Rightarrow> string" where
  "repr_str s =
     (let quote = (if CHR 0x27 \<in> set s \<and> CHR 0x22 \<notin> set s
                   then CHR 0x22 else CHR 0x27)
      in [quote] @ concat (map (escape_char quote) s) @ [quote])"

fun py_join :: "string \<Rightarrow> string list \<Rightarrow> string" where
  \<comment> \<open>\<^verbatim>\<open>sep.join(xs)\<close> on strs\<close>
  "py_join sep [] = []"
| "py_join sep [x] = x"
| "py_join sep (x # y # ys) = x @ sep @ py_join sep (y # ys)"

fun py_repr :: "json \<Rightarrow> string" where
  "py_repr JNull = ''None''"
| "py_repr (JBool b) = (if b then ''True'' else ''False'')"
| "py_repr (JInt i) = show_int i"
| "py_repr (JFloat r) = r"
| "py_repr (JStr s) = repr_str s"
| "py_repr (JList xs) = ''['' @ py_join '', '' (map py_repr xs) @ '']''"
| "py_repr (JDict d) =
     ''{'' @ py_join '', '' (map (\<lambda>(k, v). repr_str k @ '': '' @ py_repr v) d) @ ''}''"

definition py_str :: "json \<Rightarrow> string" where
  \<comment> \<open>what \<^verbatim>\<open>f"{v}"\<close> inserts\<close>
  "py_str v = (case v of JStr s \<Rightarrow> s | _ \<Rightarrow> py_repr v)"

fun py_truthy :: "json \<Rightarrow> bool" where
  "py_truthy JNull = False"
| "py_truthy (JBool b) = b"
| "py_truthy (JInt i) = (i \<noteq> 0)"
| "py_truthy (JFloat r) = (r \<noteq> ''0.0'' \<and> r \<noteq> ''-0.0'')"
| "py_truthy (JStr s) = (s \<noteq> [])"
| "py_truthy (JList xs) = (xs \<noteq> [])"
| "py_truthy (JDict d) = (d \<noteq> [])"

fun py_len :: "json \<Rightarrow> py_exc + nat" where
  "py_len (JStr s) = Inr (length s)"
| "py_len (JList xs) = Inr (length xs)"
| "py_len (JDict d) = Inr (length d)"
| "py_len v = Inl (PyExc TypeError
     (''object of type '' @ quoted (type_name v) @ '' has no len()''))"

fun is_prefix :: "'a list \<Rightarrow> 'a list \<Rightarrow> bool" where
  "is_prefix [] ys = True"
| "is_prefix (x # xs) [] = False"
| "is_prefix (x # xs) (y # ys) = (x = y \<and> is_prefix xs ys)"

fun is_substring :: "'a list \<Rightarrow> 'a list \<Rightarrow> bool" where
  "is_substring xs [] = (xs = [])"
| "is_substring xs (y # ys) = (is_prefix xs (y # ys) \<or> is_substring xs ys)"

fun py_contains :: "json \<Rightarrow> string \<Rightarrow> py_exc + bool" where
  \<comment> \<open>\<^verbatim>\<open>key in obj\<close> for a str \<open>key\<close>\<close>
  "py_contains (JDict d) k = Inr (map_of d k \<noteq> None)"
| "py_contains (JList xs) k = Inr (JStr k \<in> set xs)"
| "py_contains (JStr s) k = Inr (is_substring k s)"
| "py_contains v k = Inl (PyExc TypeError
     (''argument of type '' @ quoted (type_name v) @ '' is not iterable''))"

fun py_getitem :: "json \<Rightarrow> string \<Rightarrow> py_exc + json" where
  \<comment> \<open>\<^verbatim>\<open>obj[key]\<close> for a str \<open>key\<close>\<close>
  "py_getitem (JDict d) k =
     (case map_of d k of Some v \<Rightarrow> Inr v | None \<Rightarrow> Inl (PyExc KeyError (repr_str k)))"
| "py_getitem (JList _) k =
     Inl (PyExc TypeError ''list indices must be integers or slices, not str'')"
| "py_getitem (JStr _) k =
     Inl (PyExc TypeError (''string indices must be integers, not '' @ quoted ''str''))"
| "py_getitem v k = Inl (PyExc TypeError
     (quoted (type_name v) @ '' object is not subscriptable''))"

fun py_get :: "json \<Rightarrow> string \<Rightarrow> json \<Rightarrow> py_exc + json" where
  \<comment> \<open>\<^verbatim>\<open>obj.get(key, default)\<close>\<close>
  "py_get (JDict d) k dflt = Inr (case map_of d k of Some v \<Rightarrow> v | None \<Rightarrow> dflt)"
| "py_get v k dflt = Inl (PyExc AttributeError
     (quoted (type_name v) @ '' object has no attribute '' @ quoted ''get''))"

fun py_items :: "json \<Rightarrow> py_exc + (string \<times> json) list" where
  \<comment> \<open>\<^verbatim>\<open>obj.items()\<close>\<close>
  "py_items (JDict d) = Inr d"
| "py_items v = Inl (PyExc AttributeError
     (quoted (type_name v) @ '' object has no attribute '' @ quoted ''items''))"

fun py_slice_to :: "json \<Rightarrow> nat \<Rightarrow> py_exc + json" where
  \<comment> \<open>\<^verbatim>\<open>obj[:n]\<close>\<close>
  "py_slice_to (JStr s) n = Inr (JStr (take n s))"
| "py_slice_to (JList xs) n = Inr (JList (take n xs))"
| "py_slice_to (JDict _) n =
     Inl (PyExc TypeError (''unhashable type: '' @ quoted ''slice''))"
| "py_slice_to v n = Inl (PyExc TypeError
     (quoted (type_name v) @ '' object is not subscriptable''))"

fun join_items :: "nat \<Rightarrow> json list \<Rightarrow> py_exc + string list" where
  \<comment> \<open>the items of \<^verbatim>\<open>str.join\<close>, each of which must be a str\<close>
  "join_items i [] = Inr []"
| "join_items i (JStr s # xs) =
     (case join_items (Suc i) xs of Inl e \<Rightarrow> Inl e | Inr ss \<Rightarrow> Inr (s # ss))"
| "join_items i (v # xs) = Inl (PyExc TypeError
     (''sequence item '' @ show_nat i @ '': expected str instance, ''
        @ type_name v @ '' found''))"

fun py_join_json :: "string \<Rightarrow> json \<Rightarrow> py_exc + string" where
  \<comment> \<open>\<^verbatim>\<open>sep.join(obj)\<close>: a list of strs, the characters of a str, the keys of a dict\<close>
  "py_join_json sep (JList xs) =
     (case join_items 0 xs of Inl e \<Rightarrow> Inl e | Inr ss \<Rightarrow> Inr (py_join sep ss))"
| "py_join_json sep (JStr s) = Inr (py_join sep (map (\<lambda>c. [c]) s))"
| "py_join_json sep (JDict d) = Inr (py_join sep (map fst d))"
| "py_join_json sep v = Inl (PyExc TypeError ''can only join an iterable'')"

definition try_then :: "py_exc + 'a \<Rightarrow> ('a \<Rightarrow> py_exc + 'b) \<Rightarrow> py_exc + 'b" where
  \<comment> \<open>sequencing: an exception of the first step skips the rest\<close>
  "try_then r f = (case r of Inl e \<Rightarrow> Inl e | Inr x \<Rightarrow> f x)"

section \<open>Lookup\<close>

datatype reply = Text string | JsonText json
  \<comment> \<open>\<open>JsonText v\<close> is the text \<^verbatim>\<open>json.dumps(v, indent=2)\<close>\<close>

definition find_in_file :: "content \<Rightarrow> string \<Rightarrow> py_exc + json option" where
  \<comment> \<open>the body of the \<^verbatim>\<open>try\<close> in \<^verbatim>\<open>extract_info\<close>: \<open>Some\<close> is the early return\<close>
  "find_in_file c paper_id =
     try_then (json_load c) (\<lambda>papers_info.
       try_then (py_contains papers_info paper_id) (\<lambda>found.
         if found
         then try_then (py_getitem papers_info paper_id) (\<lambda>v. Inr (Some v))
         else Inr None))"

definition not_found_text :: "string \<Rightarrow> string" where
  "not_found_text paper_id =
     ''There's no saved information related to paper ID '' @ quoted paper_id @ ''.''"

fun scan_topics :: "(string \<times> entry) list \<Rightarrow> string \<Rightarrow> py_exc + reply" where
  \<comment> \<open>the \<^verbatim>\<open>for item in os.listdir(PAPER_DIR)\<close> loop and the final return; the
      warning the handler prints is not modelled\<close>
  "scan_topics [] paper_id = Inr (Text (not_found_text paper_id))"
| "scan_topics ((item, node) # rest) paper_id =
     (case node of
        TopicDir (InfoFile c) \<Rightarrow>
          (case find_in_file c paper_id of
             Inr (Some v) \<Rightarrow> Inr (JsonText v)
           | Inr None \<Rightarrow> scan_topics rest paper_id
           | Inl e \<Rightarrow>
               if caught_by e [FileNotFoundError, JSONDecodeError]
               then scan_topics rest paper_id else Inl e)
      | _ \<Rightarrow> scan_topics rest paper_id)"

definition extract_info :: "store \<Rightarrow> string \<Rightarrow> py_exc + reply" where
  "extract_info st paper_id =
     (case st of
        NoRoot \<Rightarrow> Inr (Text (''The '' @ quoted PAPER_DIR
          @ '' directory does not exist. No papers have been searched and stored yet.''))
      | Root es \<Rightarrow> scan_topics es paper_id)"

fun readable_partition :: "entry \<Rightarrow> bool" where
  \<comment> \<open>an entry whose file, if it has one, holds a mapping or has a JSON syntax error\<close>
  "readable_partition (TopicDir (InfoFile (Json (JDict d)))) = True"
| "readable_partition (TopicDir (InfoFile (Json v))) = False"
| "readable_partition (TopicDir (InfoFile (Unloadable e))) = (exc_cls e = JSONDecodeError)"
| "readable_partition node = True"

fun first_match :: "(string \<times> entry) list \<Rightarrow> string \<Rightarrow> json option" where
  \<comment> \<open>the spec's \<open>find_by_id\<close>: the record under \<open>paper_id\<close> in the first partition,
      in listing order, whose mapping has that key\<close>
  "first_match [] paper_id = None"
| "first_match ((item, node) # rest) paper_id =
     (case node of
        TopicDir (InfoFile (Json (JDict d))) \<Rightarrow>
          (case map_of d paper_id of Some v \<Rightarrow> Some v | None \<Rightarrow> first_match rest paper_id)
      | _ \<Rightarrow> first_match rest paper_id)"

section \<open>Topic detail listing\<close>

definition info_exists :: "store \<Rightarrow> string \<Rightarrow> bool" where
  \<comment> \<open>\<^verbatim>\<open>os.path.exists(papers_file_path)\<close>\<close>
  "info_exists st name =
     (if name_too_long name then False
      else
        (case lookup_entry st name of
           Some (TopicDir InfoDir) \<Rightarrow> True
         | Some (TopicDir (InfoFile _)) \<Rightarrow> True
         | _ \<Rightarrow> False))"

definition topic_title :: "string \<Rightarrow> string" where
  \<comment> \<open>\<^verbatim>\<open>topic.replace('_', ' ').replace('-', ' ').title()\<close>\<close>
  "topic_title topic =
     py_title (py_replace (CHR ''-'') (CHR '' '') (py_replace (CHR ''_'') (CHR '' '') topic))"

definition render_paper :: "string \<Rightarrow> json \<Rightarrow> py_exc + string" where
  \<comment> \<open>what one turn of the \<^verbatim>\<open>for paper_id, paper_info\<close> loop appends to \<open>content\<close>\<close>
  "render_paper paper_id paper_info =
     try_then (py_get paper_info ''title'' (JStr ''N/A'')) (\<lambda>title_v.
     try_then (py_get paper_info ''authors'' (JList [])) (\<lambda>authors_v.
     try_then (if py_truthy authors_v then py_join_json '', '' authors_v else Inr ''N/A'')
       (\<lambda>authors_text.
     try_then (py_get paper_info ''published'' (JStr ''N/A'')) (\<lambda>published_v.
     try_then (py_get paper_info ''pdf_url'' (JStr [])) (\<lambda>pdf_url_v.
     try_then (py_get paper_info ''summary'' (JStr ''No summary available.'')) (\<lambda>summary_v.
     try_then (py_slice_to summary_v 500) (\<lambda>excerpt.
       Inr (''## '' @ py_str title_v @ ''\<newline>''
          @ ''- **Paper ID**: '' @ paper_id @ ''\<newline>''
          @ ''- **Authors**: '' @ authors_text @ ''\<newline>''
          @ ''- **Published**: '' @ py_str published_v @ ''\<newline>''
          @ ''- **PDF URL**: ['' @ py_str pdf_url_v @ '']('' @ py_str pdf_url_v
          @ '')\<newline>\<newline>''
          @ ''### Summary\<newline>'' @ py_str excerpt @ ''...\<newline>\<newline>''
          @ ''---\<newline>\<newline>''))))))))"

fun render_papers :: "(string \<times> json) list \<Rightarrow> string \<Rightarrow> py_exc + string" where
  "render_papers [] content = Inr content"
| "render_papers ((paper_id, paper_info) # rest) content =
     try_then (render_paper paper_id paper_info) (\<lambda>block.
       render_papers rest (content @ block))"

definition render_topic :: "string \<Rightarrow> json \<Rightarrow> py_exc + string" where
  \<comment> \<open>the \<^verbatim>\<open>try\<close> body of \<^verbatim>\<open>get_topic_papers\<close> after \<^verbatim>\<open>json.load\<close>\<close>
  "render_topic topic papers_data =
     (let content = ''# Papers on '' @ topic_title topic @ ''\<newline>\<newline>'' in
      if \<not> py_truthy papers_data
      then Inr (content @ ''No paper information found in this topic folder.\<newline>'')
      else
        try_then (py_len papers_data) (\<lambda>n.
        try_then (py_items papers_data) (\<lambda>items.
          render_papers items
            (content @ ''Total papers: '' @ show_nat n @ ''\<newline>\<newline>''))))"

definition get_topic_papers :: "store \<Rightarrow> string \<Rightarrow> py_exc + string" where
  "get_topic_papers st topic =
     (if \<not> info_exists st topic
      then Inr (''# No papers found for topic folder: '' @ topic @ ''\<newline>\<newline>''
        @ ''Ensure the folder exists and contains a '' @ quoted ''papers_info.json''
        @ '' file. You might need to use the '' @ quoted ''search_papers''
        @ '' tool first for the original topic name.'')
      else
        (case try_then (try_then (open_read st topic) json_load) (render_topic topic) of
           Inr content \<Rightarrow> Inr content
         | Inl e \<Rightarrow>
             if caught_by e [JSONDecodeError]
             then Inr (''# Error reading papers data for topic folder '' @ topic
               @ ''\<newline>\<newline>The '' @ quoted ''papers_info.json''
               @ '' file might be corrupted.'')
             else if caught_by e [Exception]
             then Inr (''# An unexpected error occurred while retrieving papers for ''
               @ ''topic folder '' @ topic @ '': '' @ exc_msg e)
             else Inl e))"

section \<open>Calculator and clock\<close>

text \<open>
  \<^verbatim>\<open>eval\<close>, \<^verbatim>\<open>str\<close> of its result, \<^verbatim>\<open>strftime\<close> and \<^verbatim>\<open>isoformat\<close> are the
  interpreter's: each is a parameter, returning a value or the exception it raises.
\<close>

definition allowed_chars :: string where
  "allowed_chars = ''0123456789+-*/. ()''"

definition calculator ::
  "(string \<Rightarrow> py_exc + 'v) \<Rightarrow> ('v \<Rightarrow> py_exc + string) \<Rightarrow> string \<Rightarrow> py_exc + string" where
  "calculator py_eval str_of expression =
     (case (if \<not> list_all (\<lambda>char. char \<in> set allowed_chars) expression
            then Inr ''Error: Invalid characters in expression.''
            else try_then (py_eval expression) str_of) of
        Inr s \<Rightarrow> Inr s
      | Inl e \<Rightarrow>
          if caught_by e [Exception]
          then Inr (''Error evaluating expression: '' @ exc_msg e) else Inl e)"

definition get_current_datetime ::
  "('t \<Rightarrow> string \<Rightarrow> py_exc + string) \<Rightarrow> ('t \<Rightarrow> string) \<Rightarrow> 't \<Rightarrow> string option
     \<Rightarrow> py_exc + string" where
  \<comment> \<open>\<open>now\<close> is \<^verbatim>\<open>datetime.datetime.now()\<close>; a \<open>format_str\<close> is falsy when it is
      \<^verbatim>\<open>None\<close> or empty\<close>
  "get_current_datetime strftime isoformat now format_str =
     (case format_str of
        Some f \<Rightarrow>
          if f \<noteq> [] then
            (case strftime now f of
               Inr s \<Rightarrow> Inr s
             | Inl e \<Rightarrow>
                 if caught_by e [Exception]
                 then Inr (''Error formatting date: '' @ exc_msg e
                   @ ''. Using default format.'')
                 else Inl e)
          else Inr (isoformat now)
      | None \<Rightarrow> Inr (isoformat now))"

section \<open>Generator introspection\<close>

text \<open>
  The Generator singleton is another component's object, so its attributes hold any
  Python value: the JSON kinds, a \<^verbatim>\<open>Path\<close> (kept as its text) or an object. An object
  is given by its class name, what its truth test gives, what \<^verbatim>\<open>len\<close> of it gives,
  and its attributes with what reading each of them gives. Each of the three is a
  value or the exception raised: by \<^verbatim>\<open>__bool__\<close>, by \<^verbatim>\<open>__len__\<close> or for want of it,
  by a property. Reading an attribute gives the same each time, a dict has str keys
  and no value contains itself. \<^verbatim>\<open>str\<close> on these values is the interpreter's, a
  parameter \<open>str_of\<close> that returns the text or the exception raised.
\<close>

datatype pyval =
    PNone | PBool bool | PInt int | PFloat string | PStr string
  | PList "pyval list" | PDict "(string \<times> pyval) list"
  | PPath string
  | PObj string "py_exc + bool" "py_exc + nat" "(string \<times> (py_exc + pyval)) list"

fun pv_type_name :: "pyval \<Rightarrow> string" where
  \<comment> \<open>\<^verbatim>\<open>type(v).__name__\<close>\<close>
  "pv_type_name PNone = ''NoneType''"
| "pv_type_name (PBool _) = ''bool''"
| "pv_type_name (PInt _) = ''int''"
| "pv_type_name (PFloat _) = ''float''"
| "pv_type_name (PStr _) = ''str''"
| "pv_type_name (PList _) = ''list''"
| "pv_type_name (PDict _) = ''dict''"
| "pv_type_name (PPath _) = ''PosixPath''"
| "pv_type_name (PObj cls _ _ _) = cls"

fun pv_truthy :: "pyval \<Rightarrow> py_exc + bool" where
  \<comment> \<open>the truth test that \<^verbatim>\<open>not v\<close> and \<^verbatim>\<open>a and v\<close> apply\<close>
  "pv_truthy PNone = Inr False"
| "pv_truthy (PBool b) = Inr b"
| "pv_truthy (PInt i) = Inr (i \<noteq> 0)"
| "pv_truthy (PFloat r) = Inr (r \<noteq> ''0.0'' \<and> r \<noteq> ''-0.0'')"
| "pv_truthy (PStr s) = Inr (s \<noteq> [])"
| "pv_truthy (PList xs) = Inr (xs \<noteq> [])"
| "pv_truthy (PDict d) = Inr (d \<noteq> [])"
| "pv_truthy (PPath _) = Inr True"
| "pv_truthy (PObj _ truth _ _) = truth"

definition no_len :: "string \<Rightarrow> py_exc + nat" where
  \<comment> \<open>\<^verbatim>\<open>len\<close> of an instance of a class without \<^verbatim>\<open>__len__\<close>\<close>
  "no_len cls = Inl (PyExc TypeError (''object of type '' @ quoted cls @ '' has no len()''))"

fun pv_len :: "pyval \<Rightarrow> py_exc + nat" where
  "pv_len (PStr s) = Inr (length s)"
| "pv_len (PList xs) = Inr (length xs)"
| "pv_len (PDict d) = Inr (length d)"
| "pv_len (PObj _ _ n _) = n"
| "pv_len v = no_len (pv_type_name v)"

definition no_attribute :: "pyval \<Rightarrow> string \<Rightarrow> py_exc" where
  "no_attribute v name = PyExc AttributeError
     (quoted (pv_type_name v) @ '' object has no attribute '' @ quoted name)"

fun py_getattr :: "pyval \<Rightarrow> string \<Rightarrow> py_exc + pyval" where
  \<comment> \<open>\<^verbatim>\<open>obj.name\<close>, for the attribute names of this module, which no built-in type
      has\<close>
  "py_getattr (PObj cls truth n attrs) name =
     (case map_of attrs name of
        Some r \<Rightarrow> r
      | None \<Rightarrow> Inl (no_attribute (PObj cls truth n attrs) name))"
| "py_getattr v name = Inl (no_attribute v name)"

definition py_hasattr :: "pyval \<Rightarrow> string \<Rightarrow> py_exc + bool" where
  \<comment> \<open>\<^verbatim>\<open>hasattr(obj, name)\<close> reads the attribute: it is \<^verbatim>\<open>False\<close> when the read
      raises \<^verbatim>\<open>AttributeError\<close>, and any other exception of the read propagates\<close>
  "py_hasattr obj name =
     (case py_getattr obj name of
        Inr v \<Rightarrow> Inr True
      | Inl e \<Rightarrow> if caught_by e [AttributeError] then Inr False else Inl e)"

fun dumps_loads :: "(pyval \<Rightarrow> py_exc + string) \<Rightarrow> pyval \<Rightarrow> py_exc + json"
  and dumps_loads_list :: "(pyval \<Rightarrow> py_exc + string) \<Rightarrow> pyval list \<Rightarrow> py_exc + json list"
  and dumps_loads_items ::
    "(pyval \<Rightarrow> py_exc + string) \<Rightarrow> (string \<times> pyval) list \<Rightarrow> py_exc + (string \<times> json) list"
  where
  \<comment> \<open>\<^verbatim>\<open>json.loads(json.dumps(v, default=str))\<close>: what is not a JSON kind goes
      through \<^verbatim>\<open>str\<close>\<close>
  "dumps_loads str_of PNone = Inr JNull"
| "dumps_loads str_of (PBool b) = Inr (JBool b)"
| "dumps_loads str_of (PInt i) = Inr (JInt i)"
| "dumps_loads str_of (PFloat r) = Inr (JFloat r)"
| "dumps_loads str_of (PStr s) = Inr (JStr s)"
| "dumps_loads str_of (PList xs) =
     (case dumps_loads_list str_of xs of Inl e \<Rightarrow> Inl e | Inr js \<Rightarrow> Inr (JList js))"
| "dumps_loads str_of (PDict d) =
     (case dumps_loads_items str_of d of Inl e \<Rightarrow> Inl e | Inr jd \<Rightarrow> Inr (JDict jd))"
| "dumps_loads str_of (PPath p) =
     (case str_of (PPath p) of Inl e \<Rightarrow> Inl e | Inr s \<Rightarrow> Inr (JStr s))"
| "dumps_loads str_of (PObj cls truth n attrs) =
     (case str_of (PObj cls truth n attrs) of Inl e \<Rightarrow> Inl e | Inr s \<Rightarrow> Inr (JStr s))"
| "dumps_loads_list str_of [] = Inr []"
| "dumps_loads_list str_of (x # xs) =
     (case dumps_loads str_of x of
        Inl e \<Rightarrow> Inl e
      | Inr j \<Rightarrow>
          (case dumps_loads_list str_of xs of Inl e \<Rightarrow> Inl e | Inr js \<Rightarrow> Inr (j # js)))"
| "dumps_loads_items str_of [] = Inr []"
| "dumps_loads_items str_of ((k, v) # d) =
     (case dumps_loads str_of v of
        Inl e \<Rightarrow> Inl e
      | Inr j \<Rightarrow>
          (case dumps_loads_items str_of d of
             Inl e \<Rightarrow> Inl e
           | Inr jd \<Rightarrow> Inr ((k, j) # jd)))"

fun of_json :: "json \<Rightarrow> pyval" where
  \<comment> \<open>a value \<^verbatim>\<open>json.loads\<close> returned, as a Python value\<close>
  "of_json JNull = PNone"
| "of_json (JBool b) = PBool b"
| "of_json (JInt i) = PInt i"
| "of_json (JFloat r) = PFloat r"
| "of_json (JStr s) = PStr s"
| "of_json (JList xs) = PList (map of_json xs)"
| "of_json (JDict d) = PDict (map (\<lambda>(k, v). (k, of_json v)) d)"

fun convert_to_serializable :: "(pyval \<Rightarrow> py_exc + string) \<Rightarrow> pyval \<Rightarrow> py_exc + pyval"
  and convert_list :: "(pyval \<Rightarrow> py_exc + string) \<Rightarrow> pyval list \<Rightarrow> py_exc + pyval list"
  and convert_items ::
    "(pyval \<Rightarrow> py_exc + string) \<Rightarrow> (string \<times> pyval) list \<Rightarrow> py_exc + (string \<times> pyval) list"
  where
  "convert_to_serializable str_of (PDict d) =
     (case convert_items str_of d of Inl e \<Rightarrow> Inl e | Inr d' \<Rightarrow> Inr (PDict d'))"
| "convert_to_serializable str_of (PList xs) =
     (case convert_list str_of xs of Inl e \<Rightarrow> Inl e | Inr xs' \<Rightarrow> Inr (PList xs'))"
| "convert_to_serializable str_of (PPath p) =
     (case str_of (PPath p) of Inl e \<Rightarrow> Inl e | Inr s \<Rightarrow> Inr (PStr s))"
| "convert_to_serializable str_of (PObj cls truth n attrs) =
     (case str_of (PObj cls truth n attrs) of Inl e \<Rightarrow> Inl e | Inr s \<Rightarrow> Inr (PStr s))"
| "convert_to_serializable str_of obj = Inr obj"
| "convert_list str_of [] = Inr []"
| "convert_list str_of (x # xs) =
     (case convert_to_serializable str_of x of
        Inl e \<Rightarrow> Inl e
      | Inr x' \<Rightarrow>
          (case convert_list str_of xs of Inl e \<Rightarrow> Inl e | Inr xs' \<Rightarrow> Inr (x' # xs')))"
| "convert_items str_of [] = Inr []"
| "convert_items str_of ((k, v) # d) =
     (case convert_to_serializable str_of v of
        Inl e \<Rightarrow> Inl e
      | Inr v' \<Rightarrow>
          (case convert_items str_of d of
             Inl e \<Rightarrow> Inl e
           | Inr d' \<Rightarrow> Inr ((k, v') # d')))"

definition error_payload :: "string \<Rightarrow> json" where
  \<comment> \<open>\<^verbatim>\<open>{"error": msg}\<close>\<close>
  "error_payload msg = JDict [(''error'', JStr msg)]"

definition not_available :: "pyval \<Rightarrow> py_exc + bool" where
  \<comment> \<open>the guard of both endpoints: \<^verbatim>\<open>generator_singleton is None or not
      hasattr(generator_singleton, '_initialized') or not generator_singleton._initialized\<close>,
      left to right; it stands before the \<^verbatim>\<open>try\<close>, so what it raises is not handled\<close>
  "not_available generator_singleton =
     (if generator_singleton = PNone then Inr True
      else
        try_then (py_hasattr generator_singleton ''_initialized'') (\<lambda>present.
          if \<not> present then Inr True
          else
            try_then (py_getattr generator_singleton ''_initialized'') (\<lambda>initialized.
              try_then (pv_truthy initialized) (\<lambda>truth. Inr (\<not> truth)))))"

definition handle_errors :: "string \<Rightarrow> string \<Rightarrow> py_exc + json \<Rightarrow> py_exc + json" where
  \<comment> \<open>\<^verbatim>\<open>except AttributeError as ae: ... except Exception as e: ...\<close>, each returning
      an error payload whose text ends with the exception's message\<close>
  "handle_errors attribute_prefix exception_prefix r =
     (case r of
        Inr j \<Rightarrow> Inr j
      | Inl e \<Rightarrow>
          if caught_by e [AttributeError]
          then Inr (error_payload (attribute_prefix @ exc_msg e))
          else if caught_by e [Exception]
          then Inr (error_payload (exception_prefix @ exc_msg e))
          else Inl e)"

fun read_attrs :: "pyval \<Rightarrow> string list \<Rightarrow> py_exc + (string \<times> pyval) list" where
  \<comment> \<open>dict entries \<^verbatim>\<open>"name": generator_singleton.name\<close>, evaluated in order\<close>
  "read_attrs obj [] = Inr []"
| "read_attrs obj (name # names) =
     try_then (py_getattr obj name) (\<lambda>v.
       try_then (read_attrs obj names) (\<lambda>rest. Inr ((name, v) # rest)))"

definition default_model_names :: "string list" where
  "default_model_names =
     [''default_embedding_model'', ''default_completion_model'', ''default_reasoning_model'',
      ''default_hf_embedding_model'', ''default_hf_completion_model'',
      ''default_hf_reranker_model'', ''default_hf_ocr_model'']"

definition snapshot_config :: "(pyval \<Rightarrow> py_exc + string) \<Rightarrow> pyval \<Rightarrow> string \<Rightarrow> py_exc + pyval" where
  \<comment> \<open>\<^verbatim>\<open>convert_to_serializable(json.loads(json.dumps(generator_singleton.name,
      default=str)))\<close>\<close>
  "snapshot_config str_of obj name =
     try_then (py_getattr obj name) (\<lambda>cfg.
       try_then (dumps_loads str_of cfg) (\<lambda>j.
         convert_to_serializable str_of (of_json j)))"

definition config_snapshot :: "(pyval \<Rightarrow> py_exc + string) \<Rightarrow> pyval \<Rightarrow> py_exc + json" where
  \<comment> \<open>the \<^verbatim>\<open>try\<close> body of \<^verbatim>\<open>get_generator_configuration\<close>\<close>
  "config_snapshot str_of generator_singleton =
     try_then (snapshot_config str_of generator_singleton ''main_config'')
       (\<lambda>main_config_serializable.
     try_then (snapshot_config str_of generator_singleton ''model_config'')
       (\<lambda>model_config_serializable.
     try_then (read_attrs generator_singleton default_model_names) (\<lambda>defaults.
     try_then (py_getattr generator_singleton ''hf_model_dir'') (\<lambda>dir.
     try_then (str_of dir) (\<lambda>hf_model_dir.
       dumps_loads str_of (PDict
         ([(''main_config'', main_config_serializable),
           (''model_config'', model_config_serializable)]
          @ defaults @ [(''hf_model_dir'', PStr hf_model_dir)])))))))"

definition get_generator_configuration ::
  "(pyval \<Rightarrow> py_exc + string) \<Rightarrow> pyval \<Rightarrow> py_exc + json" where
  "get_generator_configuration str_of generator_singleton =
     try_then (not_available generator_singleton) (\<lambda>unavailable.
       if unavailable
       then Inr (error_payload ''Generator instance is not available or not initialized.'')
       else handle_errors
         ''Generator instance is missing an expected attribute: ''
         ''Error accessing generator configuration: ''
         (config_snapshot str_of generator_singleton))"

definition cache_size :: "pyval \<Rightarrow> string \<Rightarrow> py_exc + pyval" where
  \<comment> \<open>\<^verbatim>\<open>len(generator_singleton.name) if hasattr(generator_singleton, 'name')
      else "N/A"\<close>\<close>
  "cache_size obj name =
     try_then (py_hasattr obj name) (\<lambda>present.
       if present
       then try_then (py_getattr obj name) (\<lambda>cache.
              try_then (pv_len cache) (\<lambda>n. Inr (PInt (int n))))
       else Inr (PStr ''N/A''))"

definition model_status :: "pyval \<Rightarrow> string \<Rightarrow> py_exc + pyval" where
  \<comment> \<open>\<^verbatim>\<open>type(generator_singleton.name).__name__ if hasattr(generator_singleton,
      'name') and generator_singleton.name else "Not loaded"\<close>\<close>
  "model_status obj name =
     try_then (py_hasattr obj name) (\<lambda>present.
       if present
       then try_then (py_getattr obj name) (\<lambda>model.
              try_then (pv_truthy model) (\<lambda>loaded.
                if loaded
                then try_then (py_getattr obj name) (\<lambda>m. Inr (PStr (pv_type_name m)))
                else Inr (PStr ''Not loaded'')))
       else Inr (PStr ''Not loaded''))"

definition last_cleanup :: "(pyval \<Rightarrow> py_exc + string) \<Rightarrow> pyval \<Rightarrow> py_exc + pyval" where
  \<comment> \<open>\<^verbatim>\<open>str(generator_singleton._last_cleanup_time) if hasattr(generator_singleton,
      '_last_cleanup_time') else "N/A"\<close>\<close>
  "last_cleanup str_of obj =
     try_then (py_hasattr obj ''_last_cleanup_time'') (\<lambda>present.
       if present
       then try_then (py_getattr obj ''_last_cleanup_time'') (\<lambda>t.
              try_then (str_of t) (\<lambda>s. Inr (PStr s)))
       else Inr (PStr ''N/A''))"

definition manager_flag :: "pyval \<Rightarrow> py_exc + pyval" where
  \<comment> \<open>\<^verbatim>\<open>generator_singleton.mcp_client_manager._initialized if
      hasattr(generator_singleton, 'mcp_client_manager') else "N/A"\<close>\<close>
  "manager_flag obj =
     try_then (py_hasattr obj ''mcp_client_manager'') (\<lambda>present.
       if present
       then try_then (py_getattr obj ''mcp_client_manager'') (\<lambda>m.
              py_getattr m ''_initialized'')
       else Inr (PStr ''N/A''))"

definition manager_tools :: "pyval \<Rightarrow> py_exc + pyval" where
  \<comment> \<open>\<^verbatim>\<open>len(generator_singleton.mcp_client_manager.available_tools) if
      hasattr(generator_singleton, 'mcp_client_manager') else "N/A"\<close>\<close>
  "manager_tools obj =
     try_then (py_hasattr obj ''mcp_client_manager'') (\<lambda>present.
       if present
       then try_then (py_getattr obj ''mcp_client_manager'') (\<lambda>m.
              try_then (py_getattr m ''available_tools'') (\<lambda>tools.
                try_then (pv_len tools) (\<lambda>n. Inr (PInt (int n)))))
       else Inr (PStr ''N/A''))"

definition status_snapshot :: "(pyval \<Rightarrow> py_exc + string) \<Rightarrow> pyval \<Rightarrow> py_exc + json" where
  \<comment> \<open>the \<^verbatim>\<open>try\<close> body of \<^verbatim>\<open>get_generator_status\<close>\<close>
  "status_snapshot str_of generator_singleton =
     try_then (cache_size generator_singleton ''embedding_model_cache'')
       (\<lambda>embedding_cache_size.
     try_then (cache_size generator_singleton ''completion_model_cache'')
       (\<lambda>completion_cache_size.
     try_then (model_status generator_singleton ''hf_embedding_model'')
       (\<lambda>hf_embedding_model_status.
     try_then (model_status generator_singleton ''hf_completion_model'')
       (\<lambda>hf_completion_model_status.
     try_then (py_getattr generator_singleton ''_initialized'') (\<lambda>initialized.
     try_then (last_cleanup str_of generator_singleton) (\<lambda>last_cleanup_time.
     try_then (manager_flag generator_singleton) (\<lambda>manager_initialized.
     try_then (manager_tools generator_singleton) (\<lambda>tools_count.
       dumps_loads str_of (PDict
         [(''initialized'', initialized),
          (''embedding_model_cache_size'', embedding_cache_size),
          (''completion_model_cache_size'', completion_cache_size),
          (''hf_embedding_model_loaded'', hf_embedding_model_status),
          (''hf_completion_model_loaded'', hf_completion_model_status),
          (''last_cleanup_time'', last_cleanup_time),
          (''mcp_client_manager_initialized'', manager_initialized),
          (''mcp_client_available_tools_count'', tools_count)])))))))))"

definition get_generator_status ::
  "(pyval \<Rightarrow> py_exc + string) \<Rightarrow> pyval \<Rightarrow> py_exc + json" where
  "get_generator_status str_of generator_singleton =
     try_then (not_available generator_singleton) (\<lambda>unavailable.
       if unavailable
       then Inr (error_payload ''Generator instance is not available or not initialized.'')
       else handle_errors
         ''Generator instance is missing an expected attribute for status: ''
         ''Error accessing generator status: ''
         (status_snapshot str_of generator_singleton))"








definition plain_object :: "string \<Rightarrow> (string \<times> pyval) list \<Rightarrow> pyval" where
  \<comment> \<open>an instance of a class without \<^verbatim>\<open>__bool__\<close>, \<^verbatim>\<open>__len__\<close> and properties\<close>
  "plain_object cls attrs =
     PObj cls (Inr True) (no_len cls) (map (\<lambda>item. (fst item, Inr (snd item))) attrs)"

section \<open>Sample data\<close>

definition paper_A :: arxiv_result where
  "paper_A = \<lparr>short_id = ''2101.00001v1'', title = ''Qubits'', authors = [''Ada''],
     summary = ''On qubits.'', pdf_url = Some ''http://arxiv.org/pdf/2101.00001v1'',
     published = Some ''2021-01-01''\<rparr>"

definition paper_B :: arxiv_result where
  "paper_B = \<lparr>short_id = ''2101.00002v1'', title = ''Gates'', authors = [''Bob'', ''Cy''],
     summary = ''On gates.'', pdf_url = None, published = None\<rparr>"

definition paper_B' :: arxiv_result where
  "paper_B' = paper_B\<lparr>title := ''Gates, revised'', published := Some ''2021-02-02''\<rparr>"

definition paper_C :: arxiv_result where
  "paper_C = \<lparr>short_id = ''2101.00003v1'', title = ''Noise'', authors = [],
     summary = ''On noise.'', pdf_url = Some ''http://arxiv.org/pdf/2101.00003v1'',
     published = Some ''2021-03-03''\<rparr>"

definition sample_partition :: "(string \<times> json) list" where
  "sample_partition =
     [(short_id paper_A, paper_info_entry paper_A), (short_id paper_B, paper_info_entry paper_B)]"

definition sample_store :: store where
  "sample_store = Root [(''quantum_computing'', TopicDir (InfoFile (Json (JDict sample_partition))))]"

definition sample_client :: "string \<Rightarrow> int \<Rightarrow> arxiv_result list" where
  \<comment> \<open>a collaborator that finds the same two papers for every query\<close>
  "sample_client topic max_results = take (nat max_results) [paper_B', paper_C]"




definition sample_eval :: "string \<Rightarrow> py_exc + int" where
  \<comment> \<open>\<^verbatim>\<open>eval\<close> on one sum, one division by zero and a call of \<^verbatim>\<open>exit\<close>, which
      raises \<^verbatim>\<open>SystemExit\<close>; anything else is taken not to parse\<close>
  "sample_eval expression =
     (if expression = ''2 + 2'' then Inr 4
      else if expression = ''1/0'' then Inl (PyExc ZeroDivisionError ''division by zero'')
      else if expression = ''exit()'' then Inl (PyExc SystemExit ''None'')
      else Inl (PyExc SyntaxError ''invalid syntax''))"

definition str_of_int :: "int \<Rightarrow> py_exc + string" where
  \<comment> \<open>\<^verbatim>\<open>str\<close> of an int\<close>
  "str_of_int i = Inr (show_int i)"

definition sample_strftime :: "nat \<Rightarrow> string \<Rightarrow> py_exc + string" where
  \<comment> \<open>a \<^verbatim>\<open>strftime\<close> that rejects a lone percent sign\<close>
  "sample_strftime now f =
     (if f = ''%'' then Inl (PyExc ValueError ''Invalid format string'')
      else Inr ''2026-11-04'')"

definition sample_isoformat :: "nat \<Rightarrow> string" where
  "sample_isoformat now = ''2026-11-04T12:00:00''"

definition round_trip_char :: "char \<Rightarrow> char" where
  \<comment> \<open>one character through the slug and back through the replacements of the title\<close>
  "round_trip_char c =
     (let l = lower_char c;
          s = (if l = CHR '' '' then CHR ''_'' else l);
          u = (if s = CHR ''_'' then CHR '' '' else s)
      in if u = CHR ''-'' then CHR '' '' else u)"

definition topic2_partition :: entry where
  "topic2_partition =
     TopicDir (InfoFile (Json (JDict [(short_id paper_A, paper_info_entry paper_A)])))"

definition null_first_store :: store where
  "null_first_store =
     Root [(''topic1'', TopicDir (InfoFile (Json JNull))), (''topic2'', topic2_partition)]"

definition binary_first_store :: store where
  "binary_first_store =
     Root [(''topic1'', TopicDir (InfoFile (Unloadable (PyExc UnicodeDecodeError
              ''utf-8 codec cannot decode byte 0xff in position 0: invalid start byte'')))),
           (''topic2'', topic2_partition)]"

definition malformed_first_store :: store where
  "malformed_first_store =
     Root [(''notes.txt'', PlainFile),
           (''topic1'', TopicDir (InfoFile (Unloadable (PyExc JSONDecodeError
              ''Expecting value: line 1 column 1 (char 0)'')))),
           (''topic2'', topic2_partition)]"

definition sample_str_of :: "pyval \<Rightarrow> py_exc + string" where
  \<comment> \<open>a stand-in for \<^verbatim>\<open>str\<close>: exact on \<^verbatim>\<open>None\<close>, bools, ints, floats, strs and
      paths, abbreviating objects and containers; it never raises\<close>
  "sample_str_of v =
     (case v of
        PNone \<Rightarrow> Inr ''None''
      | PBool b \<Rightarrow> Inr (if b then ''True'' else ''False'')
      | PInt i \<Rightarrow> Inr (show_int i)
      | PFloat r \<Rightarrow> Inr r
      | PStr s \<Rightarrow> Inr s
      | PPath p \<Rightarrow> Inr p
      | PObj cls truth n attrs \<Rightarrow> Inr (''<'' @ cls @ '' object>'')
      | PList xs \<Rightarrow> Inr ''[...]''
      | PDict d \<Rightarrow> Inr ''{...}'')"




definition raising_generator :: pyval where
  \<comment> \<open>a Generator whose \<^verbatim>\<open>_initialized\<close> is a property that raises\<close>
  "raising_generator = PObj ''Generator'' (Inr True) (no_len ''Generator'')
     [(''_initialized'', Inl (PyExc RuntimeError ''models not loaded''))]"

definition unsure_generator :: pyval where
  \<comment> \<open>a Generator whose \<^verbatim>\<open>_initialized\<close> flag has a truth test that raises\<close>
  "unsure_generator = plain_object ''Generator''
     [(''_initialized'', PObj ''Tensor''
         (Inl (PyExc ValueError ''The truth value of an array is ambiguous''))
         (Inr 2) [])]"

section \<open>Merging fetched records into a partition\<close>

definition merge_results ::
  "arxiv_result list \<Rightarrow> (string \<times> json) list \<Rightarrow> (string \<times> json) list" where
  \<comment> \<open>the dict after the ingestion loop, as a fold\<close>
  "merge_results rs d = foldl (\<lambda>d p. dict_set (short_id p) (paper_info_entry p) d) d rs"

lemma map_of_dict_set: "map_of (dict_set k v d) = (map_of d)(k \<mapsto> v)"
  by (induction d) auto

lemma keys_dict_set: "fst ` set (dict_set k v d) = insert k (fst ` set d)"
  by (simp add: dom_map_of_conv_image_fst[symmetric] map_of_dict_set)

lemma distinct_dict_set: "distinct (map fst d) \<Longrightarrow> distinct (map fst (dict_set k v d))"
proof (induction d)
  case Nil
  then show ?case by simp
next
  case (Cons p d)
  obtain a b where p: "p = (a, b)" by (cases p)
  show ?case using Cons keys_dict_set[of k v d] by (auto simp: p)
qed

lemma store_papers_dict:
  "store_papers rs acc (JDict d) = Inr (acc @ map short_id rs, JDict (merge_results rs d))"
  by (induction rs arbitrary: acc d) (auto simp: merge_results_def)

lemma map_of_merge_results:
  "map_of (merge_results rs d)
     = map_of d ++ map_of (rev (map (\<lambda>p. (short_id p, paper_info_entry p)) rs))"
  by (induction rs arbitrary: d) (auto simp: merge_results_def map_of_dict_set)

lemma distinct_merge_results:
  "distinct (map fst d) \<Longrightarrow> distinct (map fst (merge_results rs d))"
  by (induction rs arbitrary: d) (auto simp: merge_results_def distinct_dict_set)

lemma merge_results_untouched:
  "pid \<notin> short_id ` set rs \<Longrightarrow> map_of (merge_results rs d) pid = map_of d pid"
  by (induction rs arbitrary: d) (auto simp: merge_results_def map_of_dict_set)

lemma merge_results_fresh:
  "distinct (map short_id rs) \<Longrightarrow> p \<in> set rs
     \<Longrightarrow> map_of (merge_results rs d) (short_id p) = Some (paper_info_entry p)"
proof (induction rs arbitrary: d)
  case Nil
  then show ?case by simp
next
  case (Cons r rs)
  have step: "merge_results (r # rs) d
      = merge_results rs (dict_set (short_id r) (paper_info_entry r) d)"
    by (simp add: merge_results_def)
  show ?case
  proof (cases "p = r")
    case True
    with Cons.prems have "short_id p \<notin> short_id ` set rs" by auto
    then show ?thesis
      using True by (simp add: step merge_results_untouched map_of_dict_set)
  next
    case False
    with Cons show ?thesis by (simp add: step)
  qed
qed

text \<open>
  C1. When the topic's partition file parses to a mapping \<open>old\<close>, \<open>search_papers\<close>
  returns the fetched identifiers in the collaborator's order and leaves the file
  holding a mapping \<open>new\<close> that is \<open>old\<close> overridden by the fetched records: an
  identifier that was not fetched keeps its prior record, a fetched identifier maps to
  its freshly fetched record (the last one, should the collaborator repeat an
  identifier), no key is duplicated, and no other entry of the store changes.
\<close>

theorem search_papers_merge:
  assumes plain: "plain_name (topic_slug topic)"
    and parsed: "open_read st (topic_slug topic) = Inr (Json (JDict old))"
  shows "\<exists>new st'.
      search_papers client st topic max_results
        = (Inr (map short_id (client topic max_results)), st')
    \<and> open_read st' (topic_slug topic) = Inr (Json (JDict new))
    \<and> map_of new = map_of old
        ++ map_of (rev (map (\<lambda>p. (short_id p, paper_info_entry p)) (client topic max_results)))
    \<and> (\<forall>pid. pid \<notin> short_id ` set (client topic max_results)
          \<longrightarrow> map_of new pid = map_of old pid)
    \<and> (distinct (map short_id (client topic max_results))
          \<longrightarrow> (\<forall>p \<in> set (client topic max_results).
                 map_of new (short_id p) = Some (paper_info_entry p)))
    \<and> (distinct (map fst old) \<longrightarrow> distinct (map fst new))
    \<and> (\<forall>name. name \<noteq> topic_slug topic \<longrightarrow> lookup_entry st' name = lookup_entry st name)"
proof -
  let ?slug = "topic_slug topic"
  let ?rs = "client topic max_results"
  from parsed have short: "\<not> name_too_long ?slug"
    by (auto simp: open_read_def split: if_splits)
  from parsed short obtain es where st: "st = Root es"
    and ent: "map_of es ?slug = Some (TopicDir (InfoFile (Json (JDict old))))"
    by (auto simp: open_read_def lookup_entry_def
        split: store.splits option.splits entry.splits info_node.splits)
  let ?new = "merge_results ?rs old"
  let ?st' = "Root (dict_set ?slug (TopicDir (InfoFile (Json (JDict ?new)))) es)"
  have run: "search_papers client st topic max_results = (Inr (map short_id ?rs), ?st')"
    by (simp add: search_papers_def st makedirs_root_def makedirs_topic_def ent short
        load_existing_def open_read_def lookup_entry_def store_papers_dict write_info_def)
  have rd: "open_read ?st' ?slug = Inr (Json (JDict ?new))"
    by (simp add: open_read_def lookup_entry_def map_of_dict_set short)
  have frame: "\<forall>name. name \<noteq> ?slug \<longrightarrow> lookup_entry ?st' name = lookup_entry st name"
    by (simp add: lookup_entry_def st map_of_dict_set)
  have untouched: "\<forall>pid. pid \<notin> short_id ` set ?rs \<longrightarrow> map_of ?new pid = map_of old pid"
    by (simp add: merge_results_untouched)
  have fresh: "distinct (map short_id ?rs)
      \<longrightarrow> (\<forall>p \<in> set ?rs. map_of ?new (short_id p) = Some (paper_info_entry p))"
    by (simp add: merge_results_fresh)
  show ?thesis
    using run rd frame untouched fresh
      map_of_merge_results[of ?rs old] distinct_merge_results[of old ?rs]
    by blast
qed

theorem search_papers_merge_witness:
  "plain_name (topic_slug ''Quantum Computing'')
   \<and> open_read sample_store (topic_slug ''Quantum Computing'')
       = Inr (Json (JDict sample_partition))
   \<and> (\<exists>new st'.
        search_papers sample_client sample_store ''Quantum Computing'' 5
          = (Inr [short_id paper_B, short_id paper_C], st')
      \<and> open_read st' (topic_slug ''Quantum Computing'') = Inr (Json (JDict new))
      \<and> map_of new (short_id paper_A) = Some (paper_info_entry paper_A)
      \<and> map_of new (short_id paper_B) = Some (paper_info_entry paper_B')
      \<and> map_of new (short_id paper_C) = Some (paper_info_entry paper_C))"
proof -
  have slug: "topic_slug ''Quantum Computing'' = ''quantum_computing''"
    by code_simp
  have plain: "plain_name (topic_slug ''Quantum Computing'')"
    by code_simp
  have short: "\<not> name_too_long ''quantum_computing''"
    by code_simp
  have parsed: "open_read sample_store (topic_slug ''Quantum Computing'')
      = Inr (Json (JDict sample_partition))"
    by (simp add: slug short open_read_def lookup_entry_def sample_store_def)
  have rs: "sample_client ''Quantum Computing'' 5 = [paper_B', paper_C]"
    by (simp add: sample_client_def)
  have ids: "short_id paper_B' = short_id paper_B"
    by (simp add: paper_B'_def)
  from search_papers_merge[OF plain parsed, of sample_client 5]
  obtain new st' where
    run: "search_papers sample_client sample_store ''Quantum Computing'' 5
        = (Inr (map short_id (sample_client ''Quantum Computing'' 5)), st')"
    and rd: "open_read st' (topic_slug ''Quantum Computing'') = Inr (Json (JDict new))"
    and new: "map_of new = map_of sample_partition
        ++ map_of (rev (map (\<lambda>p. (short_id p, paper_info_entry p))
             (sample_client ''Quantum Computing'' 5)))"
    by blast
  have a: "map_of new (short_id paper_A) = Some (paper_info_entry paper_A)"
    by (simp add: new rs sample_partition_def map_add_def
        paper_A_def paper_B_def paper_B'_def paper_C_def)
  have b: "map_of new (short_id paper_B) = Some (paper_info_entry paper_B')"
    by (simp add: new rs sample_partition_def map_add_def
        paper_A_def paper_B_def paper_B'_def paper_C_def)
  have c: "map_of new (short_id paper_C) = Some (paper_info_entry paper_C)"
    by (simp add: new rs sample_partition_def map_add_def
        paper_A_def paper_B_def paper_B'_def paper_C_def)
  show ?thesis
    using plain parsed run rd a b c by (auto simp: rs ids)
qed

lemma dict_set_overwrite: "dict_set k v (dict_set k v0 e) = dict_set k v e"
  by (induction e) auto

lemma dict_set_commute:
  "k1 \<noteq> k \<Longrightarrow> k1 \<in> fst ` set e
     \<Longrightarrow> dict_set k1 v1 (dict_set k v0 e) = dict_set k v0 (dict_set k1 v1 e)"
  by (induction e) (auto simp: image_iff, force+)

lemma dict_set_same: "map_of d k = Some v \<Longrightarrow> dict_set k v d = d"
  by (induction d) (auto split: if_splits)

lemma merge_results_Cons:
  "merge_results (r # rs) d = merge_results rs (dict_set (short_id r) (paper_info_entry r) d)"
  by (simp add: merge_results_def)

lemma merge_results_snoc:
  "merge_results (rs @ [r]) d = dict_set (short_id r) (paper_info_entry r) (merge_results rs d)"
  by (simp add: merge_results_def)

lemma keys_merge_results:
  "fst ` set (merge_results rs d) = fst ` set d \<union> short_id ` set rs"
  by (induction rs arbitrary: d) (auto simp: merge_results_Cons keys_dict_set merge_results_def)

lemma merge_results_absorb:
  "short_id ` set rs \<subseteq> fst ` set e
     \<Longrightarrow> dict_set k v (merge_results rs (dict_set k v0 e)) = dict_set k v (merge_results rs e)"
proof (induction rs arbitrary: e)
  case Nil
  then show ?case by (simp add: merge_results_def dict_set_overwrite)
next
  case (Cons r rs)
  let ?kr = "short_id r" and ?vr = "paper_info_entry r"
  show ?case
  proof (cases "?kr = k")
    case True
    then show ?thesis by (simp add: merge_results_Cons dict_set_overwrite)
  next
    case False
    from Cons.prems have in_e: "?kr \<in> fst ` set e" by simp
    have sub: "short_id ` set rs \<subseteq> fst ` set (dict_set ?kr ?vr e)"
      using Cons.prems by (auto simp: keys_dict_set)
    have "dict_set ?kr ?vr (dict_set k v0 e) = dict_set k v0 (dict_set ?kr ?vr e)"
      using False in_e by (rule dict_set_commute)
    then show ?thesis
      using Cons.IH[OF sub] by (simp add: merge_results_Cons)
  qed
qed

lemma merge_results_idem: "merge_results rs (merge_results rs d) = merge_results rs d"
proof (induction rs arbitrary: d rule: rev_induct)
  case Nil
  then show ?case by (simp add: merge_results_def)
next
  case (snoc r rs)
  let ?kr = "short_id r" and ?vr = "paper_info_entry r"
  have sub: "short_id ` set rs \<subseteq> fst ` set (merge_results rs d)"
    by (simp add: keys_merge_results)
  have "merge_results (rs @ [r]) (merge_results (rs @ [r]) d)
      = dict_set ?kr ?vr (merge_results rs (dict_set ?kr ?vr (merge_results rs d)))"
    by (simp add: merge_results_snoc)
  also have "\<dots> = dict_set ?kr ?vr (merge_results rs (merge_results rs d))"
    using sub by (rule merge_results_absorb)
  also have "\<dots> = merge_results (rs @ [r]) d"
    by (simp add: snoc.IH merge_results_snoc)
  finally show ?case .
qed


lemma dict_set_append_new:
  "map_of es k = None \<Longrightarrow> dict_set k v (es @ [(k, w)]) = es @ [(k, v)]"
  by (induction es) (auto split: if_splits)

lemma caught_read_errors:
  "caught_by (PyExc FileNotFoundError m) [FileNotFoundError, JSONDecodeError]"
  "caught_by (PyExc JSONDecodeError m) [FileNotFoundError, JSONDecodeError]"
  "\<not> caught_by (PyExc UnicodeDecodeError m) [FileNotFoundError, JSONDecodeError]"
  "\<not> caught_by (PyExc IsADirectoryError m) [FileNotFoundError, JSONDecodeError]"
  "\<not> caught_by (PyExc NotADirectoryError m) [FileNotFoundError, JSONDecodeError]"
  by (simp_all add: caught_by_def)

lemma store_papers_value:
  assumes "store_papers rs acc v = Inr (ids, v')"
  shows "store_papers rs [] v' = Inr (map short_id rs, v')"
proof (cases v)
  case (JDict d)
  with assms show ?thesis
    by (auto simp: store_papers_dict merge_results_idem)
qed (use assms in \<open>cases rs; simp\<close>)+

lemma store_papers_ids:
  assumes "store_papers rs acc v = Inr (ids, v')"
  shows "ids = acc @ map short_id rs"
proof (cases v)
  case (JDict d)
  with assms show ?thesis
    by (simp add: store_papers_dict)
qed (use assms in \<open>cases rs; simp\<close>)+

lemma makedirs_root_idem: "makedirs_root (makedirs_root st) = makedirs_root st"
  by (simp add: makedirs_root_def split: store.splits)

lemma search_papers_root:
  "search_papers client (makedirs_root st) topic n = search_papers client st topic n"
  by (simp add: search_papers_def makedirs_root_idem)

lemma makedirs_topic_exists:
  assumes "makedirs_topic st name = Inr st2"
  shows "\<not> name_too_long name \<and> (\<exists>es node. st2 = Root es \<and> map_of es name = Some (TopicDir node)
    \<and> (st2 = st \<or> node = NoInfo))"
  using assms
  by (auto simp: makedirs_topic_def map_add_def
      split: if_splits store.splits option.splits entry.splits)

lemma load_existing_no_info:
  assumes "\<not> name_too_long name" and "map_of es name = Some (TopicDir NoInfo)"
  shows "load_existing (Root es) name = Inr (JDict [])"
  using assms
  by (simp add: load_existing_def open_read_def lookup_entry_def caught_by_def)

lemma search_papers_fail:
  assumes "search_papers client st topic n = (Inl e, st')"
  shows "st' = makedirs_root st"
proof (cases "makedirs_topic (makedirs_root st) (topic_slug topic)")
  case (Inl e1)
  with assms show ?thesis by (simp add: search_papers_def)
next
  case (Inr st2)
  from makedirs_topic_exists[OF Inr] obtain es node where short: "\<not> name_too_long (topic_slug topic)"
    and st2: "st2 = Root es" and ent: "map_of es (topic_slug topic) = Some (TopicDir node)"
    and same: "st2 = makedirs_root st \<or> node = NoInfo"
    by blast
  from assms Inr have "st' = st2"
    by (auto simp: search_papers_def Let_def split: sum.splits prod.splits)
  moreover have "node \<noteq> NoInfo"
  proof
    assume none: "node = NoInfo"
    then have ld: "load_existing st2 (topic_slug topic) = Inr (JDict [])"
      using load_existing_no_info[OF short] ent st2 by simp
    have "\<exists>st3. write_info st2 (topic_slug topic) (JDict (merge_results (client topic n) []))
        = Inr st3"
      using short ent none st2 by (simp add: write_info_def)
    with assms Inr ld show False
      by (auto simp: search_papers_def store_papers_dict)
  qed
  ultimately show ?thesis using same by simp
qed


lemma search_papers_success:
  assumes "search_papers client st topic n = (Inr ids, st')"
  shows "\<exists>es v. st' = Root es \<and> \<not> name_too_long (topic_slug topic)
    \<and> map_of es (topic_slug topic) = Some (TopicDir (InfoFile (Json v)))
    \<and> store_papers (client topic n) [] v = Inr (ids, v)"
proof -
  let ?slug = "topic_slug topic" and ?rs = "client topic n"
  from assms obtain st2 papers_info merged where
    sp: "store_papers ?rs [] papers_info = Inr (ids, merged)"
    and wr: "write_info st2 ?slug merged = Inr st'"
    by (auto simp: search_papers_def Let_def split: sum.splits prod.splits)
  from wr have short: "\<not> name_too_long ?slug"
    by (auto simp: write_info_def split: if_splits)
  from wr obtain es where st': "st' = Root (dict_set ?slug (TopicDir (InfoFile (Json merged))) es)"
    by (auto simp: write_info_def
        split: if_splits option.splits entry.splits info_node.splits store.splits)
  have ids: "ids = map short_id ?rs"
    using store_papers_ids[OF sp] by simp
  have "store_papers ?rs [] merged = Inr (ids, merged)"
    using store_papers_value[OF sp] ids by simp
  then show ?thesis
    using st' short by (auto simp: map_of_dict_set)
qed

lemma search_papers_fixpoint:
  assumes "map_of es (topic_slug topic) = Some (TopicDir (InfoFile (Json v)))"
    and "store_papers (client topic n) [] v = Inr (ids, v)"
    and "\<not> name_too_long (topic_slug topic)"
  shows "search_papers client (Root es) topic n = (Inr ids, Root es)"
  using assms
  by (simp add: search_papers_def makedirs_root_def makedirs_topic_def load_existing_def
      open_read_def lookup_entry_def write_info_def dict_set_same)

text \<open>
  C2. Running \<open>search_papers\<close> again on the store the first run left, with the
  collaborator returning the same records, gives the same result and leaves the store
  as it was after the first run: no entry is duplicated and no record changes. This
  also covers a first run that raises, which leaves the store as it found it but for
  the \<^verbatim>\<open>papers\<close> directory, made if it was missing.
\<close>

theorem search_papers_idempotent:
  assumes "plain_name (topic_slug topic)"
  shows "search_papers client (snd (search_papers client st topic max_results)) topic max_results
       = search_papers client st topic max_results"
proof (cases "search_papers client st topic max_results")
  case (Pair r st')
  show ?thesis
  proof (cases r)
    case (Inl e)
    with Pair have "st' = makedirs_root st" by (simp add: search_papers_fail)
    with Pair show ?thesis by (simp add: search_papers_root)
  next
    case (Inr ids)
    with Pair search_papers_success[of client st topic max_results ids st']
    obtain es v where "st' = Root es"
      "map_of es (topic_slug topic) = Some (TopicDir (InfoFile (Json v)))"
      "store_papers (client topic max_results) [] v = Inr (ids, v)"
      "\<not> name_too_long (topic_slug topic)"
      by auto
    then show ?thesis
      using Pair Inr by (simp add: search_papers_fixpoint)
  qed
qed


theorem search_papers_idempotent_witness:
  "plain_name (topic_slug ''Quantum Computing'')
   \<and> search_papers sample_client
         (snd (search_papers sample_client sample_store ''Quantum Computing'' 5))
         ''Quantum Computing'' 5
       = search_papers sample_client sample_store ''Quantum Computing'' 5
   \<and> fst (search_papers sample_client sample_store ''Quantum Computing'' 5)
       = Inr [short_id paper_B, short_id paper_C]"
proof -
  have plain: "plain_name (topic_slug ''Quantum Computing'')"
    by code_simp
  have ids: "fst (search_papers sample_client sample_store ''Quantum Computing'' 5)
      = Inr [short_id paper_B, short_id paper_C]"
    by code_simp
  show ?thesis
    using plain ids search_papers_idempotent[OF plain, of sample_client sample_store 5]
    by simp
qed

section \<open>Ingestion with no results\<close>





section \<open>The calculator and the clock\<close>

text \<open>
  C8. For every input string the calculator returns a string and does not raise,
  whatever \<^verbatim>\<open>eval\<close> and \<^verbatim>\<open>str\<close> do, as long as what they raise at an expression
  that passed the character filter is an instance of \<^verbatim>\<open>Exception\<close> (the handler is
  \<^verbatim>\<open>except Exception\<close>); nothing is asked of them at an expression the filter rejects,
  which is never evaluated. A character outside the allowed set gives the
  invalid-characters message, a failing evaluation gives the error text with the
  exception's message, and otherwise the result's \<^verbatim>\<open>str\<close> is returned.
\<close>

theorem calculator_total:
  assumes exceptions:
    "set expression \<subseteq> set allowed_chars \<longrightarrow>
     (case py_eval expression of
        Inl e \<Rightarrow> caught_by e [Exception]
      | Inr v \<Rightarrow> (case str_of v of Inl e \<Rightarrow> caught_by e [Exception] | Inr t \<Rightarrow> True))"
  shows "\<exists>s. calculator py_eval str_of expression = Inr s
    \<and> (\<not> set expression \<subseteq> set allowed_chars
         \<longrightarrow> s = ''Error: Invalid characters in expression.'')
    \<and> (set expression \<subseteq> set allowed_chars \<longrightarrow>
         (case py_eval expression of
            Inl e \<Rightarrow> s = ''Error evaluating expression: '' @ exc_msg e
          | Inr v \<Rightarrow>
              (case str_of v of
                 Inl e \<Rightarrow> s = ''Error evaluating expression: '' @ exc_msg e
               | Inr t \<Rightarrow> s = t)))"
proof (cases "set expression \<subseteq> set allowed_chars")
  case False
  then show ?thesis
    by (auto simp: calculator_def list_all_iff)
next
  case True
  then have ok: "list_all (\<lambda>char. char \<in> set allowed_chars) expression"
    by (auto simp: list_all_iff)
  show ?thesis
    using exceptions True
    by (auto simp: calculator_def try_then_def ok split: sum.splits)
qed

theorem calculator_total_witness:
  "calculator sample_eval str_of_int ''1/0''
     = Inr ''Error evaluating expression: division by zero''
   \<and> sample_eval ''exit()'' = Inl (PyExc SystemExit ''None'')
   \<and> \<not> caught_by (PyExc SystemExit ''None'') [Exception]
   \<and> calculator sample_eval str_of_int ''exit()''
     = Inr ''Error: Invalid characters in expression.''"
proof -
  have ea: "sample_eval ''1/0'' = Inl (PyExc ZeroDivisionError ''division by zero'')"
    by (simp add: sample_eval_def)
  have a: "set ''1/0'' \<subseteq> set allowed_chars"
    by (simp add: allowed_chars_def)
  have exceptions:
    "set ''1/0'' \<subseteq> set allowed_chars \<longrightarrow>
     (case sample_eval ''1/0'' of
        Inl e \<Rightarrow> caught_by e [Exception]
      | Inr v \<Rightarrow> (case str_of_int v of Inl e \<Rightarrow> caught_by e [Exception] | Inr t \<Rightarrow> True))"
    by (simp add: ea caught_by_def)
  from calculator_total[where py_eval = sample_eval and expression = "''1/0''"
      and str_of = str_of_int] exceptions
  obtain s where 1: "calculator sample_eval str_of_int ''1/0'' = Inr s"
    and r: "set ''1/0'' \<subseteq> set allowed_chars \<longrightarrow>
         (case sample_eval ''1/0'' of
            Inl e \<Rightarrow> s = ''Error evaluating expression: '' @ exc_msg e
          | Inr v \<Rightarrow>
              (case str_of_int v of
                 Inl e \<Rightarrow> s = ''Error evaluating expression: '' @ exc_msg e
               | Inr t \<Rightarrow> s = t))"
    by blast
  from r a have "s = ''Error evaluating expression: division by zero''"
    by (simp add: ea)
  with 1 have first: "calculator sample_eval str_of_int ''1/0''
     = Inr ''Error evaluating expression: division by zero''"
    by simp
  have eb: "sample_eval ''exit()'' = Inl (PyExc SystemExit ''None'')"
    by (simp add: sample_eval_def)
  have nc: "\<not> caught_by (PyExc SystemExit ''None'') [Exception]"
    by (simp add: caught_by_def)
  have b: "\<not> set ''exit()'' \<subseteq> set allowed_chars"
    by (simp add: allowed_chars_def)
  then have vacuous:
    "set ''exit()'' \<subseteq> set allowed_chars \<longrightarrow>
     (case sample_eval ''exit()'' of
        Inl e \<Rightarrow> caught_by e [Exception]
      | Inr v \<Rightarrow> (case str_of_int v of Inl e \<Rightarrow> caught_by e [Exception] | Inr t \<Rightarrow> True))"
    by blast
  from calculator_total[where py_eval = sample_eval and expression = "''exit()''"
      and str_of = str_of_int] vacuous
  obtain t where 2: "calculator sample_eval str_of_int ''exit()'' = Inr t"
    and q: "\<not> set ''exit()'' \<subseteq> set allowed_chars
         \<longrightarrow> t = ''Error: Invalid characters in expression.''"
    by blast
  from q b 2 have second: "calculator sample_eval str_of_int ''exit()''
     = Inr ''Error: Invalid characters in expression.''"
    by blast
  from first eb nc second show ?thesis by blast
qed

text \<open>
  C9. When \<open>format_str\<close> is not empty and \<^verbatim>\<open>strftime\<close> raises (an instance of
  \<^verbatim>\<open>Exception\<close>), the error text, which says "Using default format", is what is
  returned; for a non-empty \<open>format_str\<close> the result does not depend on
  \<^verbatim>\<open>isoformat\<close> at all, which is consulted only when \<open>format_str\<close> is \<^verbatim>\<open>None\<close> or
  empty.
\<close>

theorem get_current_datetime_format_error:
  "(\<forall>f e. f \<noteq> [] \<longrightarrow> strftime now f = Inl e \<longrightarrow> caught_by e [Exception] \<longrightarrow>
       get_current_datetime strftime isoformat now (Some f)
         = Inr (''Error formatting date: '' @ exc_msg e @ ''. Using default format.''))
   \<and> (\<forall>f other_isoformat. f \<noteq> [] \<longrightarrow>
       get_current_datetime strftime isoformat now (Some f)
         = get_current_datetime strftime other_isoformat now (Some f))
   \<and> get_current_datetime strftime isoformat now None = Inr (isoformat now)
   \<and> get_current_datetime strftime isoformat now (Some []) = Inr (isoformat now)"
  by (simp add: get_current_datetime_def)

theorem get_current_datetime_format_error_witness:
  "sample_strftime 0 ''%'' = Inl (PyExc ValueError ''Invalid format string'')
   \<and> caught_by (PyExc ValueError ''Invalid format string'') [Exception]
   \<and> get_current_datetime sample_strftime sample_isoformat 0 (Some ''%'')
       = Inr ''Error formatting date: Invalid format string. Using default format.''"
proof -
  have r: "sample_strftime 0 ''%'' = Inl (PyExc ValueError ''Invalid format string'')"
    by (simp add: sample_strftime_def)
  have c: "caught_by (PyExc ValueError ''Invalid format string'') [Exception]"
    by (simp add: caught_by_def)
  have n: "''%'' \<noteq> []" by simp
  from get_current_datetime_format_error[of sample_strftime 0 sample_isoformat]
  have "''%'' \<noteq> [] \<longrightarrow> sample_strftime 0 ''%''
          = Inl (PyExc ValueError ''Invalid format string'')
        \<longrightarrow> caught_by (PyExc ValueError ''Invalid format string'') [Exception]
        \<longrightarrow> get_current_datetime sample_strftime sample_isoformat 0 (Some ''%'')
          = Inr (''Error formatting date: ''
              @ exc_msg (PyExc ValueError ''Invalid format string'')
              @ ''. Using default format.'')"
    by blast
  with n r c have "get_current_datetime sample_strftime sample_isoformat 0 (Some ''%'')
      = Inr (''Error formatting date: ''
              @ exc_msg (PyExc ValueError ''Invalid format string'')
              @ ''. Using default format.'')"
    by blast
  with r c show ?thesis by simp
qed

section \<open>Slugs and titles\<close>

lemma upper_lower:
  assumes "is_upper c"
  shows "is_lower (lower_char c)" "\<not> is_upper (lower_char c)" "upper_char (lower_char c) = c"
    "lower_char c \<noteq> CHR '' ''" "lower_char c \<noteq> CHR ''_''" "lower_char c \<noteq> CHR ''-''"
proof -
  let ?n = "of_char c :: nat"
  from assms have n: "65 \<le> ?n" "?n \<le> 90" by (simp_all add: is_upper_def)
  have l: "lower_char c = char_of (?n + 32)" using assms by (simp add: lower_char_def)
  have v: "(of_char (lower_char c) :: nat) = ?n + 32" using n by (simp add: l)
  show "is_lower (lower_char c)" using n by (simp add: is_lower_def v)
  show "\<not> is_upper (lower_char c)" using n by (simp add: is_upper_def v)
  show "upper_char (lower_char c) = c"
    using n by (simp add: upper_char_def is_lower_def v)
  have "of_char (lower_char c) \<noteq> (of_char (CHR '' '') :: nat)" using n by (simp add: v)
  then show "lower_char c \<noteq> CHR '' ''" by fastforce
  have "of_char (lower_char c) \<noteq> (of_char (CHR ''_'') :: nat)" using n by (simp add: v)
  then show "lower_char c \<noteq> CHR ''_''" by fastforce
  have "of_char (lower_char c) \<noteq> (of_char (CHR ''-'') :: nat)" using n by (simp add: v)
  then show "lower_char c \<noteq> CHR ''-''" by fastforce
qed

lemma lower_fixed:
  assumes "is_lower c"
  shows "lower_char c = c" "\<not> is_upper c" "c \<noteq> CHR '' ''" "c \<noteq> CHR ''_''" "c \<noteq> CHR ''-''"
proof -
  let ?n = "of_char c :: nat"
  from assms have n: "97 \<le> ?n" "?n \<le> 122" by (simp_all add: is_lower_def)
  show u: "\<not> is_upper c" using n by (simp add: is_upper_def)
  then show "lower_char c = c" by (simp add: lower_char_def)
  show "c \<noteq> CHR '' ''" "c \<noteq> CHR ''_''" "c \<noteq> CHR ''-''" using n by auto
qed

lemma round_trip_map:
  "py_replace (CHR ''-'') (CHR '' '') (py_replace (CHR ''_'') (CHR '' '') (topic_slug q))
     = map round_trip_char q"
  by (simp add: topic_slug_def py_replace_def py_lower_def round_trip_char_def Let_def)

lemma title_round_trip_from:
  "title_cased prev q \<Longrightarrow> title_from prev (map round_trip_char q) = q"
proof (induction q arbitrary: prev)
  case Nil
  then show ?case by simp
next
  case (Cons c cs)
  show ?case
  proof (cases "is_upper c")
    case True
    with Cons.prems have p: "\<not> prev" "title_cased True cs" by simp_all
    have r: "round_trip_char c = lower_char c"
      using upper_lower[OF True] by (simp add: round_trip_char_def Let_def)
    show ?thesis
      using p Cons.IH[of True] upper_lower[OF True] by (simp add: r)
  next
    case False
    show ?thesis
    proof (cases "is_lower c")
      case True
      with Cons.prems False have p: "prev" "title_cased True cs" by simp_all
      have r: "round_trip_char c = c"
        using lower_fixed[OF True] by (simp add: round_trip_char_def Let_def)
      show ?thesis
        using p Cons.IH[of True] lower_fixed[OF True] True by (simp add: r)
    next
      case nl: False
      with Cons.prems False have p: "c \<noteq> CHR ''_''" "c \<noteq> CHR ''-''" "title_cased False cs"
        by simp_all
      have l: "lower_char c = c" using False by (simp add: lower_char_def)
      have u: "upper_char c = c" using nl by (simp add: upper_char_def)
      have r: "round_trip_char c = c"
        using p by (simp add: round_trip_char_def Let_def l)
      show ?thesis
        using p Cons.IH[of False] False nl by (simp add: r l u)
    qed
  qed
qed

lemma title_round_trip: "title_cased False q \<Longrightarrow> topic_title (topic_slug q) = q"
  by (simp add: topic_title_def py_title_def round_trip_map title_round_trip_from)

lemma render_papers_prefix:
  "render_papers items acc = Inr content \<Longrightarrow> \<exists>rest. content = acc @ rest"
proof (induction items arbitrary: acc)
  case Nil
  then show ?case by simp
next
  case (Cons item items)
  obtain pid info where item: "item = (pid, info)" by (cases item)
  from Cons.prems obtain block where
    "render_papers items (acc @ block) = Inr content"
    by (auto simp: item try_then_def split: sum.splits)
  from Cons.IH[OF this] show ?case by auto
qed

lemma render_topic_header:
  "render_topic topic data = Inr content
     \<Longrightarrow> \<exists>rest. content = ''# Papers on '' @ topic_title topic @ ''\<newline>\<newline>'' @ rest"
  by (auto simp: render_topic_def Let_def try_then_def
      split: if_splits sum.splits dest!: render_papers_prefix)


lemma join_items_strs: "join_items i (map JStr xs) = Inr xs"
  by (induction xs arbitrary: i) auto

lemma render_paper_entry: "\<exists>block. render_paper pid (paper_info_entry p) = Inr block"
  by (cases "authors p")
    (simp_all add: render_paper_def paper_info_entry_def try_then_def join_items_strs)

lemma render_papers_entries:
  "\<forall>item \<in> set items. \<exists>p. snd item = paper_info_entry p
     \<Longrightarrow> \<exists>content. render_papers items acc = Inr content"
proof (induction items arbitrary: acc)
  case Nil
  then show ?case by simp
next
  case (Cons item items)
  obtain pid info where item: "item = (pid, info)" by (cases item)
  from Cons.prems obtain p where info: "info = paper_info_entry p"
    by (auto simp: item)
  obtain block where "render_paper pid info = Inr block"
    using render_paper_entry[of pid p] info by auto
  moreover have "\<exists>content. render_papers items (acc @ block) = Inr content"
    using Cons by simp
  ultimately show ?case
    by (simp add: item try_then_def)
qed

lemma dict_set_values:
  "set (dict_set k v d) \<subseteq> insert (k, v) (set d)"
  by (induction d) (auto split: if_splits)

lemma merge_results_values:
  "\<forall>item \<in> set d. \<exists>p. snd item = paper_info_entry p
     \<Longrightarrow> \<forall>item \<in> set (merge_results rs d). \<exists>p. snd item = paper_info_entry p"
proof (induction rs arbitrary: d)
  case Nil
  then show ?case by (simp add: merge_results_def)
next
  case (Cons r rs)
  have "\<forall>item \<in> set (dict_set (short_id r) (paper_info_entry r) d).
      \<exists>p. snd item = paper_info_entry p"
    using Cons.prems dict_set_values[of "short_id r" "paper_info_entry r" d] by fastforce
  from Cons.IH[OF this] show ?case
    by (simp add: merge_results_Cons)
qed

lemma render_topic_entries:
  assumes "\<forall>item \<in> set d. \<exists>p. snd item = paper_info_entry p"
  shows "\<exists>content. render_topic topic (JDict d) = Inr content"
  using render_papers_entries[OF assms]
  by (simp add: render_topic_def Let_def try_then_def)

lemma search_papers_new_topic:
  assumes "lookup_entry st (topic_slug topic) = None"
    and short: "\<not> name_too_long (topic_slug topic)"
  shows "\<exists>st'. search_papers client st topic n = (Inr (map short_id (client topic n)), st')
     \<and> open_read st' (topic_slug topic)
         = Inr (Json (JDict (merge_results (client topic n) [])))"
proof (cases st)
  case NoRoot
  then show ?thesis
    using short
    by (simp add: search_papers_def makedirs_root_def makedirs_topic_def Let_def
        load_existing_def open_read_def lookup_entry_def write_info_def caught_read_errors
        store_papers_dict)
next
  case (Root es)
  with assms have "map_of es (topic_slug topic) = None"
    by (simp add: lookup_entry_def)
  then show ?thesis
    using Root short
    by (simp add: search_papers_def makedirs_root_def makedirs_topic_def Let_def
        load_existing_def open_read_def lookup_entry_def write_info_def caught_read_errors
        store_papers_dict dict_set_append_new map_add_def)
qed

lemma get_topic_papers_parsed:
  assumes "open_read st topic = Inr (Json data)" and "render_topic topic data = Inr content"
  shows "get_topic_papers st topic = Inr content"
proof -
  from assms(1) have "info_exists st topic"
    by (auto simp: open_read_def info_exists_def
        split: if_splits option.splits entry.splits info_node.splits)
  with assms show ?thesis
    by (simp add: get_topic_papers_def try_then_def)
qed

text \<open>
  C5. The query "Quantum Computing" has the slug \<open>quantum_computing\<close>, whose title is
  "Quantum Computing" again; the same round trip holds for every ASCII query in title
  case without underscores or hyphens; and the listing shows the title: after
  \<open>search_papers\<close> on that query, in a store that had no entry for the slug, the topic
  detail of \<open>quantum_computing\<close> starts with the heading "# Papers on Quantum Computing".
\<close>

theorem slug_title_round_trip:
  "topic_slug ''Quantum Computing'' = ''quantum_computing''
   \<and> topic_title ''quantum_computing'' = ''Quantum Computing''
   \<and> (\<forall>q. title_cased False q \<longrightarrow> topic_title (topic_slug q) = q)
   \<and> (\<forall>client st max_results.
         lookup_entry st ''quantum_computing'' = None \<longrightarrow>
         (\<exists>rest. get_topic_papers
              (snd (search_papers client st ''Quantum Computing'' max_results))
              ''quantum_computing''
            = Inr (''# Papers on Quantum Computing\<newline>\<newline>'' @ rest)))"
proof -
  have slug: "topic_slug ''Quantum Computing'' = ''quantum_computing''"
    by code_simp
  have ttl: "topic_title ''quantum_computing'' = ''Quantum Computing''"
    by code_simp
  have listing: "\<exists>rest. get_topic_papers
        (snd (search_papers client st ''Quantum Computing'' max_results))
        ''quantum_computing''
      = Inr (''# Papers on Quantum Computing\<newline>\<newline>'' @ rest)"
    if "lookup_entry st ''quantum_computing'' = None" for client st max_results
  proof -
    let ?d = "merge_results (client ''Quantum Computing'' max_results) []"
    have short: "\<not> name_too_long ''quantum_computing''"
      by code_simp
    from that short search_papers_new_topic[of st "''Quantum Computing''" client max_results]
    obtain st' where
      run: "snd (search_papers client st ''Quantum Computing'' max_results) = st'"
      and rd: "open_read st' ''quantum_computing'' = Inr (Json (JDict ?d))"
      by (auto simp: slug)
    have "\<forall>item \<in> set ?d. \<exists>p. snd item = paper_info_entry p"
      by (rule merge_results_values) simp
    from render_topic_entries[OF this] obtain content where
      c: "render_topic ''quantum_computing'' (JDict ?d) = Inr content"
      by blast
    from render_topic_header[OF c] obtain rest where
      "content = ''# Papers on Quantum Computing\<newline>\<newline>'' @ rest"
      by (auto simp: ttl)
    with get_topic_papers_parsed[OF rd c] run show ?thesis
      by auto
  qed
  show ?thesis
    using slug ttl title_round_trip listing by blast
qed


theorem slug_title_round_trip_witness:
  "title_cased False ''Graph Neural Networks''
   \<and> topic_title (topic_slug ''Graph Neural Networks'') = ''Graph Neural Networks''
   \<and> lookup_entry NoRoot ''quantum_computing'' = None
   \<and> (\<exists>rest. get_topic_papers
          (snd (search_papers sample_client NoRoot ''Quantum Computing'' 5))
          ''quantum_computing''
        = Inr (''# Papers on Quantum Computing\<newline>\<newline>'' @ rest))"
proof -
  have t: "title_cased False ''Graph Neural Networks''"
    by code_simp
  have n: "lookup_entry NoRoot ''quantum_computing'' = None"
    by (simp add: lookup_entry_def)
  from slug_title_round_trip t
  have 1: "topic_title (topic_slug ''Graph Neural Networks'') = ''Graph Neural Networks''"
    by blast
  from slug_title_round_trip n
  have 2: "\<exists>rest. get_topic_papers
          (snd (search_papers sample_client NoRoot ''Quantum Computing'' 5))
          ''quantum_computing''
        = Inr (''# Papers on Quantum Computing\<newline>\<newline>'' @ rest)"
    by blast
  from t n 1 2 show ?thesis by simp
qed

section \<open>The summary excerpt\<close>

lemma py_get_error: "py_get v k dflt = Inl e \<Longrightarrow> exc_cls e = AttributeError"
  by (cases v) auto

lemma join_items_error: "join_items i xs = Inl e \<Longrightarrow> exc_cls e = TypeError"
proof (induction xs arbitrary: i)
  case Nil
  then show ?case by simp
next
  case (Cons x xs)
  then show ?case by (cases x) (auto split: sum.splits)
qed

lemma py_join_json_error: "py_join_json sep v = Inl e \<Longrightarrow> exc_cls e = TypeError"
  by (cases v) (auto split: sum.splits dest: join_items_error)

lemma py_slice_to_error: "py_slice_to v n = Inl e \<Longrightarrow> exc_cls e = TypeError"
  by (cases v) auto

lemma render_paper_error:
  assumes "render_paper paper_id paper_info = Inl e"
  shows "exc_cls e = AttributeError \<or> exc_cls e = TypeError"
  using assms
  by (auto simp: render_paper_def try_then_def
      split: sum.splits if_splits
      dest: py_get_error py_join_json_error py_slice_to_error)

lemma render_paper_block:
  assumes "render_paper paper_id paper_info = Inr block"
    and "py_get paper_info ''summary'' (JStr ''No summary available.'') = Inr (JStr s)"
  shows "\<exists>head. block = head @ ''### Summary\<newline>'' @ take 500 s @ ''...\<newline>\<newline>''
      @ ''---\<newline>\<newline>''"
proof -
  from assms(2) obtain d where d: "paper_info = JDict d"
    by (cases paper_info) simp_all
  from assms(1) obtain authors_text where
    "block = (''## '' @ py_str (case map_of d ''title'' of Some v \<Rightarrow> v | None \<Rightarrow> JStr ''N/A'')
      @ ''\<newline>''
      @ ''- **Paper ID**: '' @ paper_id @ ''\<newline>''
      @ ''- **Authors**: '' @ authors_text @ ''\<newline>''
      @ ''- **Published**: ''
      @ py_str (case map_of d ''published'' of Some v \<Rightarrow> v | None \<Rightarrow> JStr ''N/A'')
      @ ''\<newline>''
      @ ''- **PDF URL**: ['' @ py_str (case map_of d ''pdf_url'' of Some v \<Rightarrow> v | None \<Rightarrow> JStr [])
      @ '']('' @ py_str (case map_of d ''pdf_url'' of Some v \<Rightarrow> v | None \<Rightarrow> JStr [])
      @ '')\<newline>\<newline>'')
      @ ''### Summary\<newline>'' @ take 500 s @ ''...\<newline>\<newline>'' @ ''---\<newline>\<newline>''"
    using assms(2)
    by (auto simp: d render_paper_def try_then_def py_str_def split: sum.splits)
  then show ?thesis by blast
qed

lemma render_papers_blocks:
  "render_papers items acc = Inr content
     \<Longrightarrow> \<exists>blocks. content = acc @ concat blocks
          \<and> list_all2 (\<lambda>item block. render_paper (fst item) (snd item) = Inr block) items blocks"
proof (induction items arbitrary: acc)
  case Nil
  then show ?case by simp
next
  case (Cons item items)
  obtain pid info where item: "item = (pid, info)" by (cases item)
  from Cons.prems obtain block where b: "render_paper pid info = Inr block"
    and rest: "render_papers items (acc @ block) = Inr content"
    by (auto simp: item try_then_def split: sum.splits)
  from Cons.IH[OF rest] obtain blocks where "content = (acc @ block) @ concat blocks"
    and "list_all2 (\<lambda>item block. render_paper (fst item) (snd item) = Inr block) items blocks"
    by blast
  then have "content = acc @ concat (block # blocks)
      \<and> list_all2 (\<lambda>item block. render_paper (fst item) (snd item) = Inr block)
          (item # items) (block # blocks)"
    using b by (simp add: item)
  then show ?case by blast
qed

lemma render_papers_fails:
  "render_papers items acc = Inl e
     \<Longrightarrow> \<exists>item \<in> set items. render_paper (fst item) (snd item) = Inl e"
proof (induction items arbitrary: acc)
  case Nil
  then show ?case by simp
next
  case (Cons item items)
  obtain pid info where item: "item = (pid, info)" by (cases item)
  show ?case
  proof (cases "render_paper pid info")
    case (Inl e1)
    with Cons.prems show ?thesis by (simp add: item try_then_def)
  next
    case (Inr block)
    with Cons.prems have "render_papers items (acc @ block) = Inl e"
      by (simp add: item try_then_def)
    from Cons.IH[OF this] show ?thesis by auto
  qed
qed

text \<open>
  C6, as stated, fails: the marker is appended whatever the summary's length. In the
  listing of a topic whose one record has the ten-character summary of \<open>paper_A\<close>, the
  summary is shown in full and followed by "...".
\<close>

theorem get_topic_papers_excerpt_counterexample:
  "length (summary paper_A) \<le> 500
   \<and> open_read null_first_store ''topic2''
     = Inr (Json (JDict [(short_id paper_A, paper_info_entry paper_A)]))
   \<and> get_topic_papers null_first_store ''topic2''
     = Inr (''# Papers on Topic2\<newline>\<newline>''
         @ ''Total papers: 1\<newline>\<newline>''
         @ ''## Qubits\<newline>''
         @ ''- **Paper ID**: 2101.00001v1\<newline>''
         @ ''- **Authors**: Ada\<newline>''
         @ ''- **Published**: 2021-01-01\<newline>''
         @ ''- **PDF URL**: [http://arxiv.org/pdf/2101.00001v1]''
         @ ''(http://arxiv.org/pdf/2101.00001v1)\<newline>\<newline>''
         @ ''### Summary\<newline>On qubits....\<newline>\<newline>''
         @ ''---\<newline>\<newline>'')"
  by code_simp

text \<open>
  C6, amended. Take a topic whose file holds a mapping that is not empty. Either
  formatting some record raises, and the response is the unexpected-error line with
  that exception's message; or the response is the heading, the count and one block
  per record, in order, and for every record whose summary is a string (the default
  text when the record has none) the block ends with the summary section: the first
  500 characters of the summary, all of it when it has 500 or fewer, always followed
  by the marker "...".
\<close>

theorem get_topic_papers_excerpt:
  assumes parsed: "open_read st topic = Inr (Json (JDict d))"
    and nonempty: "d \<noteq> []"
  shows "(\<exists>e. (\<exists>item \<in> set d. render_paper (fst item) (snd item) = Inl e)
        \<and> get_topic_papers st topic
            = Inr (''# An unexpected error occurred while retrieving papers for ''
                @ ''topic folder '' @ topic @ '': '' @ exc_msg e))
    \<or> (\<exists>blocks. get_topic_papers st topic
            = Inr (''# Papers on '' @ topic_title topic @ ''\<newline>\<newline>''
                @ ''Total papers: '' @ show_nat (length d) @ ''\<newline>\<newline>''
                @ concat blocks)
        \<and> list_all2 (\<lambda>item block.
              render_paper (fst item) (snd item) = Inr block
            \<and> (\<forall>s. py_get (snd item) ''summary'' (JStr ''No summary available.'') = Inr (JStr s)
                 \<longrightarrow> (\<exists>head. block = head @ ''### Summary\<newline>'' @ take 500 s
                          @ ''...\<newline>\<newline>'' @ ''---\<newline>\<newline>'')
                   \<and> length (take 500 s) \<le> 500
                   \<and> (length s \<le> 500 \<longrightarrow> take 500 s = s))) d blocks)"
proof -
  let ?acc = "''# Papers on '' @ topic_title topic @ ''\<newline>\<newline>''
      @ ''Total papers: '' @ show_nat (length d) @ ''\<newline>\<newline>''"
  from parsed have ex: "info_exists st topic"
    by (auto simp: open_read_def info_exists_def
        split: if_splits option.splits entry.splits info_node.splits)
  have rt: "render_topic topic (JDict d) = render_papers d ?acc"
    using nonempty by (simp add: render_topic_def try_then_def)
  show ?thesis
  proof (cases "render_papers d ?acc")
    case (Inl e)
    from render_papers_fails[OF Inl] obtain item where
      item: "item \<in> set d" "render_paper (fst item) (snd item) = Inl e"
      by blast
    from render_paper_error[OF item(2)]
    have cls: "\<not> caught_by e [JSONDecodeError]" "caught_by e [Exception]"
      by (auto simp: caught_by_def)
    have "get_topic_papers st topic
        = Inr (''# An unexpected error occurred while retrieving papers for ''
            @ ''topic folder '' @ topic @ '': '' @ exc_msg e)"
      using ex parsed rt Inl cls by (simp add: get_topic_papers_def try_then_def)
    with item show ?thesis by blast
  next
    case (Inr content)
    from render_papers_blocks[OF Inr] obtain blocks where
      c: "content = ?acc @ concat blocks"
      and all: "list_all2 (\<lambda>item block. render_paper (fst item) (snd item) = Inr block) d blocks"
      by blast
    have run: "get_topic_papers st topic = Inr (?acc @ concat blocks)"
      using ex parsed rt Inr c by (simp add: get_topic_papers_def try_then_def)
    have "list_all2 (\<lambda>item block.
              render_paper (fst item) (snd item) = Inr block
            \<and> (\<forall>s. py_get (snd item) ''summary'' (JStr ''No summary available.'') = Inr (JStr s)
                 \<longrightarrow> (\<exists>head. block = head @ ''### Summary\<newline>'' @ take 500 s
                          @ ''...\<newline>\<newline>'' @ ''---\<newline>\<newline>'')
                   \<and> length (take 500 s) \<le> 500
                   \<and> (length s \<le> 500 \<longrightarrow> take 500 s = s))) d blocks"
      using all
      by (rule list_all2_mono) (auto dest: render_paper_block)
    with run show ?thesis by auto
  qed
qed

theorem get_topic_papers_excerpt_witness:
  "open_read sample_store ''quantum_computing'' = Inr (Json (JDict sample_partition))
   \<and> sample_partition \<noteq> []
   \<and> (\<exists>head1 head2. get_topic_papers sample_store ''quantum_computing''
        = Inr (''# Papers on Quantum Computing\<newline>\<newline>Total papers: 2\<newline>\<newline>''
            @ head1 @ ''### Summary\<newline>On qubits....\<newline>\<newline>---\<newline>\<newline>''
            @ head2 @ ''### Summary\<newline>On gates....\<newline>\<newline>---\<newline>\<newline>''))"
proof -
  let ?a = "(short_id paper_A, paper_info_entry paper_A)"
  let ?b = "(short_id paper_B, paper_info_entry paper_B)"
  have short: "\<not> name_too_long ''quantum_computing''"
    by code_simp
  have parsed: "open_read sample_store ''quantum_computing''
      = Inr (Json (JDict sample_partition))"
    by (simp add: short open_read_def lookup_entry_def sample_store_def)
  have nonempty: "sample_partition \<noteq> []"
    by (simp add: sample_partition_def)
  have ttl: "topic_title ''quantum_computing'' = ''Quantum Computing''"
    by code_simp
  have two: "show_nat (length sample_partition) = ''2''"
    by code_simp
  have sa: "py_get (paper_info_entry paper_A) ''summary'' (JStr ''No summary available.'')
      = Inr (JStr ''On qubits.'')"
    by (simp add: paper_info_entry_def paper_A_def)
  have sb: "py_get (paper_info_entry paper_B) ''summary'' (JStr ''No summary available.'')
      = Inr (JStr ''On gates.'')"
    by (simp add: paper_info_entry_def paper_B_def)
  have renders: "\<not> (\<exists>e. \<exists>item \<in> set sample_partition.
      render_paper (fst item) (snd item) = Inl e)"
    using render_paper_entry[of "short_id paper_A" paper_A]
      render_paper_entry[of "short_id paper_B" paper_B]
    by (auto simp: sample_partition_def)
  from get_topic_papers_excerpt[OF parsed nonempty] renders
  obtain blocks where
    run: "get_topic_papers sample_store ''quantum_computing''
        = Inr (''# Papers on '' @ topic_title ''quantum_computing'' @ ''\<newline>\<newline>''
            @ ''Total papers: '' @ show_nat (length sample_partition) @ ''\<newline>\<newline>''
            @ concat blocks)"
    and all: "list_all2 (\<lambda>item block.
          render_paper (fst item) (snd item) = Inr block
        \<and> (\<forall>s. py_get (snd item) ''summary'' (JStr ''No summary available.'') = Inr (JStr s)
             \<longrightarrow> (\<exists>head. block = head @ ''### Summary\<newline>'' @ take 500 s
                      @ ''...\<newline>\<newline>'' @ ''---\<newline>\<newline>'')
               \<and> length (take 500 s) \<le> 500
               \<and> (length s \<le> 500 \<longrightarrow> take 500 s = s))) sample_partition blocks"
    by blast
  from all obtain b1 b2 where blocks: "blocks = [b1, b2]"
    and p1: "\<forall>s. py_get (paper_info_entry paper_A) ''summary'' (JStr ''No summary available.'')
          = Inr (JStr s)
        \<longrightarrow> (\<exists>head. b1 = head @ ''### Summary\<newline>'' @ take 500 s
              @ ''...\<newline>\<newline>'' @ ''---\<newline>\<newline>'')"
    and p2: "\<forall>s. py_get (paper_info_entry paper_B) ''summary'' (JStr ''No summary available.'')
          = Inr (JStr s)
        \<longrightarrow> (\<exists>head. b2 = head @ ''### Summary\<newline>'' @ take 500 s
              @ ''...\<newline>\<newline>'' @ ''---\<newline>\<newline>'')"
    by (auto simp: sample_partition_def list_all2_Cons1)
  from p1 sa obtain head1 where
    h1: "b1 = head1 @ ''### Summary\<newline>On qubits....\<newline>\<newline>---\<newline>\<newline>''"
    by auto
  from p2 sb obtain head2 where
    h2: "b2 = head2 @ ''### Summary\<newline>On gates....\<newline>\<newline>---\<newline>\<newline>''"
    by auto
  have "get_topic_papers sample_store ''quantum_computing''
        = Inr (''# Papers on Quantum Computing\<newline>\<newline>Total papers: 2\<newline>\<newline>''
            @ head1 @ ''### Summary\<newline>On qubits....\<newline>\<newline>---\<newline>\<newline>''
            @ head2 @ ''### Summary\<newline>On gates....\<newline>\<newline>---\<newline>\<newline>'')"
    by (simp add: run ttl two blocks h1 h2)
  with parsed nonempty show ?thesis by blast
qed

section \<open>Lookup across partitions\<close>

text \<open>
  C3. The lookup does not return the record or the not-found text for every on-disk
  state: it does where every partition file holds a mapping or has a JSON syntax
  error (X1 below), but the handler of the scan catches only
  \<^verbatim>\<open>FileNotFoundError\<close> and \<^verbatim>\<open>JSONDecodeError\<close>. A file holding the JSON value
  \<^verbatim>\<open>null\<close> makes the membership test raise \<^verbatim>\<open>TypeError\<close>, and a file that is not
  text makes the read raise \<^verbatim>\<open>UnicodeDecodeError\<close>; either escapes, whether or not the
  identifier is stored in the next partition.
\<close>

theorem extract_info_raises:
  "extract_info null_first_store (short_id paper_A)
     = Inl (PyExc TypeError ''argument of type 'NoneType' is not iterable'')
   \<and> extract_info null_first_store ''0000.00000v1''
     = Inl (PyExc TypeError ''argument of type 'NoneType' is not iterable'')
   \<and> extract_info binary_first_store (short_id paper_A)
     = Inl (PyExc UnicodeDecodeError
         ''utf-8 codec cannot decode byte 0xff in position 0: invalid start byte'')"
  by code_simp

lemma scan_topics_first_match:
  "list_all (\<lambda>item. readable_partition (snd item)) es
     \<Longrightarrow> scan_topics es paper_id
       = Inr (case first_match es paper_id of
                Some v \<Rightarrow> JsonText v
              | None \<Rightarrow> Text (not_found_text paper_id))"
proof (induction es)
  case Nil
  then show ?case by simp
next
  case (Cons item es)
  obtain name node where item: "item = (name, node)" by (cases item)
  from Cons have IH: "scan_topics es paper_id
       = Inr (case first_match es paper_id of
                Some v \<Rightarrow> JsonText v
              | None \<Rightarrow> Text (not_found_text paper_id))"
    and ok: "readable_partition node"
    by (simp_all add: item)
  show ?case
  proof (cases node)
    case PlainFile
    then show ?thesis by (simp add: item IH)
  next
    case (TopicDir info)
    show ?thesis
    proof (cases info)
      case (InfoFile c)
      show ?thesis
      proof (cases c)
        case (Json v)
        with ok TopicDir InfoFile obtain d where "v = JDict d"
          by (cases v) simp_all
        then show ?thesis
          using Json TopicDir InfoFile
          by (simp add: item IH find_in_file_def try_then_def split: option.splits)
      next
        case (Unloadable e)
        with ok TopicDir InfoFile have "caught_by e [FileNotFoundError, JSONDecodeError]"
          by (simp add: caught_by_def)
        then show ?thesis
          using Unloadable TopicDir InfoFile
          by (simp add: item IH find_in_file_def try_then_def)
      qed
    qed (simp_all add: item IH TopicDir)
  qed
qed

text \<open>
  X1. Where every partition file holds a mapping or has a JSON syntax error, the lookup
  returns the serialized record of the first partition that has the identifier, or
  the not-found text; entries that are not directories, directories without the file
  and files with a syntax error are skipped. Without the \<^verbatim>\<open>papers\<close> directory it
  returns the text that says so.
\<close>

theorem extract_info_first_match:
  "extract_info NoRoot paper_id
     = Inr (Text (''The '' @ quoted PAPER_DIR
         @ '' directory does not exist. No papers have been searched and stored yet.''))
   \<and> (list_all (\<lambda>item. readable_partition (snd item)) es \<longrightarrow>
        extract_info (Root es) paper_id
          = Inr (case first_match es paper_id of
                   Some v \<Rightarrow> JsonText v
                 | None \<Rightarrow> Text (not_found_text paper_id)))"
  by (simp add: extract_info_def scan_topics_first_match)

theorem extract_info_first_match_witness:
  "extract_info malformed_first_store (short_id paper_A)
     = Inr (JsonText (paper_info_entry paper_A))
   \<and> extract_info malformed_first_store ''0000.00000v1''
     = Inr (Text (not_found_text ''0000.00000v1''))"
proof -
  let ?es = "[(''notes.txt'', PlainFile),
       (''topic1'', TopicDir (InfoFile (Unloadable (PyExc JSONDecodeError
              ''Expecting value: line 1 column 1 (char 0)'')))),
       (''topic2'', TopicDir (InfoFile (Json
              (JDict [(short_id paper_A, paper_info_entry paper_A)]))))]"
  have st: "malformed_first_store = Root ?es"
    by (simp add: malformed_first_store_def topic2_partition_def)
  have ok: "list_all (\<lambda>item. readable_partition (snd item)) ?es"
    by simp
  have m1: "first_match ?es (short_id paper_A) = Some (paper_info_entry paper_A)"
    by simp
  have m2: "first_match ?es ''0000.00000v1'' = None"
    by (simp add: paper_A_def)
  from extract_info_first_match[of "short_id paper_A" ?es] ok
  have "extract_info (Root ?es) (short_id paper_A)
      = Inr (case first_match ?es (short_id paper_A) of
                   Some v \<Rightarrow> JsonText v
                 | None \<Rightarrow> Text (not_found_text (short_id paper_A)))"
    by blast
  then have 1: "extract_info malformed_first_store (short_id paper_A)
     = Inr (JsonText (paper_info_entry paper_A))"
    by (simp only: st m1 option.case)
  from extract_info_first_match[of "''0000.00000v1''" ?es] ok
  have "extract_info (Root ?es) ''0000.00000v1''
      = Inr (case first_match ?es ''0000.00000v1'' of
                   Some v \<Rightarrow> JsonText v
                 | None \<Rightarrow> Text (not_found_text ''0000.00000v1''))"
    by blast
  then have 2: "extract_info malformed_first_store ''0000.00000v1''
     = Inr (Text (not_found_text ''0000.00000v1''))"
    by (simp only: st m2 option.case)
  from 1 2 show ?thesis by simp
qed

section \<open>Generator status with missing attributes\<close>















section \<open>Degrading to an error payload\<close>

































section \<open>What the guard raises\<close>

text \<open>
  X2. The guard of the two endpoints stands before their \<^verbatim>\<open>try\<close>: when reading
  \<^verbatim>\<open>_initialized\<close> raises something other than \<^verbatim>\<open>AttributeError\<close>, or the truth test
  of the flag raises, each endpoint raises that exception, whatever its class.
\<close>

theorem guard_escapes:
  assumes "not_available g = Inl e"
  shows "get_generator_configuration str_of g = Inl e
    \<and> get_generator_status str_of g = Inl e"
  using assms
  by (simp add: get_generator_configuration_def get_generator_status_def try_then_def)

theorem guard_escapes_witness:
  "not_available raising_generator = Inl (PyExc RuntimeError ''models not loaded'')
   \<and> get_generator_configuration sample_str_of raising_generator
     = Inl (PyExc RuntimeError ''models not loaded'')
   \<and> get_generator_status sample_str_of raising_generator
     = Inl (PyExc RuntimeError ''models not loaded'')
   \<and> not_available unsure_generator
     = Inl (PyExc ValueError ''The truth value of an array is ambiguous'')
   \<and> get_generator_status sample_str_of unsure_generator
     = Inl (PyExc ValueError ''The truth value of an array is ambiguous'')"
proof -
  have a: "not_available raising_generator = Inl (PyExc RuntimeError ''models not loaded'')"
    by code_simp
  have b: "not_available unsure_generator
     = Inl (PyExc ValueError ''The truth value of an array is ambiguous'')"
    by code_simp
  from guard_escapes[OF a, of sample_str_of] guard_escapes[OF b, of sample_str_of] a b
  show ?thesis by blast
qed

end
